theory Spec2Isabelle
  imports Complex_Main "HOL-Library.Sublist"
begin

section \<open>Credential resolution of \<open>sp_api/base/credential_provider.py\<close>\<close>

text \<open>
  The development embeds the class \<open>CredentialProvider\<close> and its nested class
  \<open>Config\<close>. Python objects are records, dictionaries passed as keyword arguments
  are association lists, \<open>os.environ\<close> and the class-level cache are maps, raised
  exceptions are the left summand of a sum type, and every method takes the instance and
  the process state and returns both, updated, together with its result.
\<close>

subsection \<open>Values, dictionaries, exceptions\<close>

text \<open>
  The values a credential field can hold after \<open>json.loads\<close>, a YAML read or an
  environment lookup: \<open>None\<close>, a string, a boolean, an integer, a float, a list, a
  dictionary with string keys. A float is the real number it denotes (the infinities and
  \<open>nan\<close>, all of them true, are not represented). \<open>truthy\<close> is Python's truth test,
  which \<open>not v\<close> negates.
\<close>

datatype pyval =
  PNone | PStr string | PBool bool | PInt int | PFloat real
  | PList "pyval list" | PDict "(string \<times> pyval) list"

fun truthy :: "pyval \<Rightarrow> bool" where
  "truthy PNone = False"
| "truthy (PStr s) = (s \<noteq> [])"
| "truthy (PBool b) = b"
| "truthy (PInt i) = (i \<noteq> 0)"
| "truthy (PFloat x) = (x \<noteq> 0)"
| "truthy (PList xs) = (xs \<noteq> [])"
| "truthy (PDict d) = (d \<noteq> [])"

type_synonym pydict = "(string \<times> pyval) list"

text \<open>\<open>d.get(k)\<close>: the value bound to \<open>k\<close>, \<open>None\<close> when the key is absent.\<close>

definition dict_get :: "pydict \<Rightarrow> string \<Rightarrow> pyval" where
  "dict_get d k = (case map_of d k of Some v \<Rightarrow> v | None \<Rightarrow> PNone)"

text \<open>
  The exceptions. \<open>MissingCredentials\<close> carries its message. \<open>TypeError\<close> is what a
  call with a missing or an unexpected keyword argument raises, and what \<open>json.loads\<close>
  raises for \<open>None\<close>; \<open>JSONDecodeError\<close> is what it raises for text that is not JSON;
  \<open>AttributeError\<close> is what \<open>secret.get\<close> raises when the decoded value is no
  dictionary. \<open>ClientError\<close> is botocore's exception for an error response of the
  service (secret not found, access denied). \<open>BotoCoreError\<close>, with the name of its
  class, stands for the other exceptions of botocore, which are no \<open>ClientError\<close>:
  \<open>NoRegionError\<close>, \<open>NoCredentialsError\<close>, \<open>EndpointConnectionError\<close>,
  \<open>ParamValidationError\<close>.
\<close>

datatype exn =
  MissingCredentials string | TypeError | JSONDecodeError | AttributeError
  | ClientError | BotoCoreError string

subsection \<open>The class \<open>Config\<close>\<close>

record Config =
  refresh_token :: pyval
  lwa_app_id :: pyval
  lwa_client_secret :: pyval
  aws_access_key :: pyval
  aws_secret_key :: pyval
  role_arn :: pyval

definition Config_params :: "string list" where
  "Config_params = [''refresh_token'', ''lwa_app_id'', ''lwa_client_secret'',
     ''aws_access_key'', ''aws_secret_key'', ''role_arn'', ''use_instance_profile'']"

definition Config_positional :: "string list" where
  "Config_positional = [''refresh_token'', ''lwa_app_id'', ''lwa_client_secret'',
     ''aws_access_key'', ''aws_secret_key'']"

text \<open>
  \<open>Config(**kw)\<close>. The first five parameters have no default, \<open>role_arn\<close> and
  \<open>use_instance_profile\<close> default to \<open>None\<close>; a keyword that is no parameter, or a
  parameter without default that is not bound, is a \<open>TypeError\<close>.
  \<open>use_instance_profile\<close> is accepted and not stored.
\<close>

definition Config_init :: "pydict \<Rightarrow> exn + Config" where
  "Config_init kw =
     (if list_ex (\<lambda>k. k \<notin> set Config_params) (map fst kw) then Inl TypeError
      else if list_ex (\<lambda>k. k \<notin> set (map fst kw)) Config_positional then Inl TypeError
      else Inr \<lparr>refresh_token = dict_get kw ''refresh_token'',
                lwa_app_id = dict_get kw ''lwa_app_id'',
                lwa_client_secret = dict_get kw ''lwa_client_secret'',
                aws_access_key = dict_get kw ''aws_access_key'',
                aws_secret_key = dict_get kw ''aws_secret_key'',
                role_arn = dict_get kw ''role_arn''\<rparr>)"

text \<open>\<open>self.__dict__.items()\<close>: the attributes in the order \<open>__init__\<close> assigns them.\<close>

definition dict_items :: "Config \<Rightarrow> (string \<times> pyval) list" where
  "dict_items c =
     [(''refresh_token'', refresh_token c), (''lwa_app_id'', lwa_app_id c),
      (''lwa_client_secret'', lwa_client_secret c), (''aws_access_key'', aws_access_key c),
      (''aws_secret_key'', aws_secret_key c), (''role_arn'', role_arn c)]"

text \<open>The loop of \<open>check_config\<close>, \<open>errors\<close> being the accumulator.\<close>

definition check_config :: "Config \<Rightarrow> string list" where
  "check_config c =
     foldl (\<lambda>errors (k, v).
              if \<not> truthy v \<and> k \<notin> set [''refresh_token'', ''role_arn'']
              then errors @ [k] else errors)
       [] (dict_items c)"

subsection \<open>Messages\<close>

fun join :: "string \<Rightarrow> string list \<Rightarrow> string" where
  "join sep [] = []"
| "join sep [x] = x"
| "join sep (x # y # ys) = x @ sep @ join sep (y # ys)"

text \<open>
  \<open>repr\<close> of a string without quotes or escapes (the field names are such strings), and
  of a list of them, as the f-string \<open>{missing}\<close> formats it.
\<close>

definition repr_str :: "string \<Rightarrow> string" where
  "repr_str s = [CHR 0x27] @ s @ [CHR 0x27]"

definition repr_list :: "string list \<Rightarrow> string" where
  "repr_list xs = ''['' @ join '', '' (map repr_str xs) @ '']''"

definition missing_msg :: "string list \<Rightarrow> string" where
  "missing_msg missing =
     ''The following configuration parameters are missing: '' @ repr_list missing"

definition account_msg :: "string \<Rightarrow> string" where
  "account_msg acct =
     ''The account '' @ acct @ '' was not setup in your configuration file.''"

definition no_source_msg :: "string" where
  "no_source_msg =
     ''Neither environment variables nor a config file were found. '' @
     ''Please set the correct variables, or use a config file (credentials.yml). '' @
     ''See https://confuse.readthedocs.io/en/latest/usage.html#search-paths for search paths.''"

subsection \<open>The process: environment, cache, collaborators, call log\<close>

text \<open>
  The text \<open>json.dumps\<close> produces is represented by the dictionary it encodes;
  \<open>json.loads\<close> gives that dictionary back.
\<close>

datatype json_text = JsonText pydict

definition json_dumps :: "pydict \<Rightarrow> json_text" where
  "json_dumps d = JsonText d"

fun json_loads :: "json_text \<Rightarrow> pydict" where
  "json_loads (JsonText d) = d"

text \<open>
  What \<open>response.get('SecretString')\<close> is for a response of \<open>get_secret_value\<close>:
  \<open>None\<close> (the secret is binary), text that is not JSON, the JSON text of a value that
  is no object, or the JSON text of the object given. \<open>decode_secret\<close> is
  \<open>json.loads\<close> on it, together with the check that the \<open>get\<close> calls on the result
  need.
\<close>

datatype secret_string = NoSecretString | InvalidJSON | NonObject | Object pydict

definition decode_secret :: "secret_string \<Rightarrow> exn + pydict" where
  "decode_secret s =
     (case s of
        NoSecretString \<Rightarrow> Inl TypeError
      | InvalidJSON \<Rightarrow> Inl JSONDecodeError
      | NonObject \<Rightarrow> Inl AttributeError
      | Object secret \<Rightarrow> Inr secret)"

text \<open>
  The log records, in order, each invocation of a source method and each access to the
  environment, the cache and the secret store. It is instrumentation: no method reads it.
\<close>

datatype event =
  Call string | EnvironGet string | CacheGet string | CacheSet string | GetSecretValue string

text \<open>
  \<open>boto3_client\<close> is the exception \<open>boto3.client('secretsmanager')\<close> raises, \<open>None\<close>
  when it returns a client. \<open>secretsmanager\<close> is what \<open>get_secret_value\<close> does for a
  secret identifier: the exception it raises, or the secret string of its response.
  \<open>credentials_yml\<close> is \<open>None\<close> when the configuration cannot be read
  (\<open>ConfigReadError\<close>) and otherwise maps each account present in the file to its
  section; an account the file lacks is a \<open>NotFoundError\<close>.
\<close>

record world =
  environ :: "string \<rightharpoonup> string"
  cache :: "string \<rightharpoonup> json_text"
  boto3_client :: "exn option"
  secretsmanager :: "string \<Rightarrow> exn + secret_string"
  credentials_yml :: "(string \<rightharpoonup> pydict) option"
  trace :: "event list"

definition log :: "event \<Rightarrow> world \<Rightarrow> world" where
  "log e w = w\<lparr>trace := trace w @ [e]\<rparr>"

definition environ_get :: "string \<Rightarrow> world \<Rightarrow> string option \<times> world" where
  "environ_get k w = (environ w k, log (EnvironGet k) w)"

definition cache_getitem :: "string \<Rightarrow> world \<Rightarrow> json_text option \<times> world" where
  "cache_getitem k w = (cache w k, log (CacheGet k) w)"

definition cache_setitem :: "string \<Rightarrow> json_text \<Rightarrow> world \<Rightarrow> world" where
  "cache_setitem k v w = (log (CacheSet k) w)\<lparr>cache := (cache w)(k \<mapsto> v)\<rparr>"

text \<open>
  \<open>client.get_secret_value(SecretId=sid)\<close>; without an identifier the client refuses
  the parameters before any request.
\<close>

definition get_secret_value ::
  "string option \<Rightarrow> world \<Rightarrow> (exn + secret_string) \<times> world" where
  "get_secret_value sid w =
     (case sid of
        None \<Rightarrow> (Inl (BotoCoreError ''ParamValidationError''), w)
      | Some s \<Rightarrow> (secretsmanager w s, log (GetSecretValue s) w))"

subsection \<open>The class \<open>CredentialProvider\<close>\<close>

record CredentialProvider =
  account :: string
  credentials :: "Config option"

type_synonym 'a outcome = "(exn + 'a) \<times> CredentialProvider \<times> world"

definition of_env :: "string option \<Rightarrow> pyval" where
  "of_env v = (case v of Some s \<Rightarrow> PStr s | None \<Rightarrow> PNone)"

text \<open>
  \<open>_get_env\<close>: the default argument, the unscoped lookup, is evaluated before the
  scoped lookup that may use it.
\<close>

definition get_env :: "CredentialProvider \<Rightarrow> string \<Rightarrow> world \<Rightarrow> pyval \<times> world" where
  "get_env self key w =
     (case environ_get key w of (dflt, w1) \<Rightarrow>
      case environ_get (key @ ''_'' @ account self) w1 of (v, w2) \<Rightarrow>
        (case v of Some s \<Rightarrow> PStr s | None \<Rightarrow> of_env dflt, w2))"

text \<open>The dictionary \<open>from_env\<close> builds when the cache has no entry.\<close>

definition env_account_data :: "CredentialProvider \<Rightarrow> world \<Rightarrow> pydict \<times> world" where
  "env_account_data self w =
     (case get_env self ''SP_API_REFRESH_TOKEN'' w of (v1, w1) \<Rightarrow>
      case get_env self ''LWA_APP_ID'' w1 of (v2, w2) \<Rightarrow>
      case get_env self ''LWA_CLIENT_SECRET'' w2 of (v3, w3) \<Rightarrow>
      case get_env self ''SP_API_SECRET_KEY'' w3 of (v4, w4) \<Rightarrow>
      case get_env self ''SP_API_ACCESS_KEY'' w4 of (v5, w5) \<Rightarrow>
      case get_env self ''SP_API_ROLE_ARN'' w5 of (v6, w6) \<Rightarrow>
        ([(''refresh_token'', v1), (''lwa_app_id'', v2), (''lwa_client_secret'', v3),
          (''aws_secret_key'', v4), (''aws_access_key'', v5), (''role_arn'', v6)], w6))"

text \<open>The tail shared by \<open>from_env\<close> and \<open>from_secrets\<close>: build, assign, validate.\<close>

definition set_and_check :: "pydict \<Rightarrow> CredentialProvider \<Rightarrow> world \<Rightarrow> (bool option) outcome" where
  "set_and_check account_data self w =
     (case Config_init account_data of
        Inl e \<Rightarrow> (Inl e, self, w)
      | Inr c \<Rightarrow> (Inr (Some (length (check_config c) = 0)), self\<lparr>credentials := Some c\<rparr>, w))"

definition from_env :: "CredentialProvider \<Rightarrow> world \<Rightarrow> (bool option) outcome" where
  "from_env self w0 =
     (case cache_getitem ''account_data'' (log (Call ''from_env'') w0) of
        (Some j, w) \<Rightarrow> set_and_check (json_loads j) self w
      | (None, w) \<Rightarrow>
          (case env_account_data self w of (account_data, w') \<Rightarrow>
             set_and_check account_data self w'))"

text \<open>The dictionary \<open>from_secrets\<close> builds from the decoded secret.\<close>

definition secret_account_data :: "pydict \<Rightarrow> pydict" where
  "secret_account_data secret =
     [(''refresh_token'', dict_get secret ''SP_API_REFRESH_TOKEN''),
      (''lwa_app_id'', dict_get secret ''LWA_APP_ID''),
      (''lwa_client_secret'', dict_get secret ''LWA_CLIENT_SECRET''),
      (''aws_secret_key'', dict_get secret ''SP_API_SECRET_KEY''),
      (''aws_access_key'', dict_get secret ''SP_API_ACCESS_KEY''),
      (''role_arn'', dict_get secret ''SP_API_ROLE_ARN'')]"

text \<open>
  The body of the \<open>try\<close> statement of \<open>from_secrets\<close>: create the client, read the
  identifier again, fetch, decode, build the dictionary, store its JSON text in the
  cache. The result is the exception that left the body, or \<open>account_data\<close>.
\<close>

definition secrets_try :: "world \<Rightarrow> (exn + pydict) \<times> world" where
  "secrets_try w =
     (case boto3_client w of
        Some e \<Rightarrow> (Inl e, w)
      | None \<Rightarrow>
          (case environ_get ''SP_API_AWS_SECRET_ID'' w of (sid, w1) \<Rightarrow>
           case get_secret_value sid w1 of
             (Inl e, w2) \<Rightarrow> (Inl e, w2)
           | (Inr response, w2) \<Rightarrow>
               (case decode_secret response of
                  Inl e \<Rightarrow> (Inl e, w2)
                | Inr secret \<Rightarrow>
                    (Inr (secret_account_data secret),
                     cache_setitem ''account_data''
                       (json_dumps (secret_account_data secret)) w2))))"

text \<open>
  \<open>from_secrets\<close> returns \<open>None\<close> (here \<open>Inr None\<close>) when the identifier is unset or
  empty. \<open>except ClientError\<close> turns that exception, and no other, into the result
  \<open>None\<close>; the \<open>else\<close> branch builds and validates the record.
\<close>

definition from_secrets :: "CredentialProvider \<Rightarrow> world \<Rightarrow> (bool option) outcome" where
  "from_secrets self w0 =
     (case environ_get ''SP_API_AWS_SECRET_ID'' (log (Call ''from_secrets'') w0) of
        (None, w) \<Rightarrow> (Inr None, self, w)
      | (Some sid0, w) \<Rightarrow>
          if sid0 = [] then (Inr None, self, w)
          else
            (case secrets_try w of
               (Inl e, w') \<Rightarrow>
                 if e = ClientError then (Inr None, self, w') else (Inl e, self, w')
             | (Inr account_data, w') \<Rightarrow> set_and_check account_data self w'))"

definition read_config :: "CredentialProvider \<Rightarrow> world \<Rightarrow> (bool option) outcome" where
  "read_config self w0 =
     (let w = log (Call ''read_config'') w0 in
      case credentials_yml w of
        None \<Rightarrow> (Inl (MissingCredentials no_source_msg), self, w)
      | Some config \<Rightarrow>
          (case config (account self) of
             None \<Rightarrow> (Inl (MissingCredentials (account_msg (account self))), self, w)
           | Some account_data \<Rightarrow>
               (case Config_init account_data of
                  Inl e \<Rightarrow> (Inl e, self, w)
                | Inr c \<Rightarrow>
                    if length (check_config c) \<noteq> 0
                    then (Inl (MissingCredentials (missing_msg (check_config c))),
                          self\<lparr>credentials := Some c\<rparr>, w)
                    else (Inr (Some True), self\<lparr>credentials := Some c\<rparr>, w))))"

text \<open>\<open>self.read_credentials\<close>, the list \<open>__init__\<close> builds.\<close>

definition read_credentials ::
  "(CredentialProvider \<Rightarrow> world \<Rightarrow> (bool option) outcome) list" where
  "read_credentials = [from_env, from_secrets, read_config]"

text \<open>
  The loop of \<open>load_credentials\<close>: it returns \<open>True\<close> at the first method whose
  result is true, an exception leaves it, and it falls through to \<open>None\<close>.
\<close>

fun load_loop ::
  "(CredentialProvider \<Rightarrow> world \<Rightarrow> (bool option) outcome) list \<Rightarrow>
     CredentialProvider \<Rightarrow> world \<Rightarrow> (bool option) outcome" where
  "load_loop [] self w = (Inr None, self, w)"
| "load_loop (read_method # rest) self w =
     (case read_method self w of
        (Inl e, self', w') \<Rightarrow> (Inl e, self', w')
      | (Inr r, self', w') \<Rightarrow>
          if r = Some True then (Inr (Some True), self', w') else load_loop rest self' w')"

definition load_credentials :: "CredentialProvider \<Rightarrow> world \<Rightarrow> (bool option) outcome" where
  "load_credentials self w = load_loop read_credentials self w"

text \<open>
  \<open>CredentialProvider(account, credentials)\<close>. \<open>if credentials:\<close> holds for a
  dictionary with at least one key. The result is the constructed object, or the
  exception that left \<open>__init__\<close>, with the process state afterwards.
\<close>

definition CredentialProvider_init ::
  "string \<Rightarrow> pydict option \<Rightarrow> world \<Rightarrow> (exn + CredentialProvider) \<times> world" where
  "CredentialProvider_init acct creds w =
     (let self = \<lparr>account = acct, credentials = None\<rparr> in
      case creds of
        Some (kv # kw) \<Rightarrow>
          (case Config_init (kv # kw) of
             Inl e \<Rightarrow> (Inl e, w)
           | Inr c \<Rightarrow>
               if length (check_config c) \<noteq> 0
               then (Inl (MissingCredentials (missing_msg (check_config c))), w)
               else (Inr (self\<lparr>credentials := Some c\<rparr>), w))
      | _ \<Rightarrow>
          (case load_credentials self w of
             (Inl e, self', w') \<Rightarrow> (Inl e, w')
           | (Inr r, self', w') \<Rightarrow> (Inr self', w')))"

subsection \<open>Notions used to state the properties\<close>

text \<open>
  The required fields as the specification lists them, attribute access by name, the
  kinds of logged events, the events logged between two states, and sample process
  states for the instances.
\<close>

definition required_fields :: "string list" where
  "required_fields = [''lwa_app_id'', ''lwa_client_secret'', ''aws_access_key'', ''aws_secret_key'']"

text \<open>
  The validation result in the specification's words: the required fields that a
  mapping binds to an empty value or does not bind.
\<close>

definition missing_required :: "pydict \<Rightarrow> string list" where
  "missing_required kw = filter (\<lambda>k. \<not> truthy (dict_get kw k)) required_fields"

definition getattr :: "Config \<Rightarrow> string \<Rightarrow> pyval" where
  "getattr c k = dict_get (dict_items c) k"

fun is_call :: "event \<Rightarrow> bool" where
  "is_call (Call n) = True"
| "is_call _ = False"

fun is_fetch :: "event \<Rightarrow> bool" where
  "is_fetch (GetSecretValue sid) = True"
| "is_fetch _ = False"

fun is_environ_get :: "event \<Rightarrow> bool" where
  "is_environ_get (EnvironGet k) = True"
| "is_environ_get _ = False"

fun cache_key_ok :: "event \<Rightarrow> bool" where
  "cache_key_ok (CacheGet k) = (k = ''account_data'')"
| "cache_key_ok (CacheSet k) = (k = ''account_data'')"
| "cache_key_ok _ = True"

definition new_events :: "world \<Rightarrow> world \<Rightarrow> event list" where
  "new_events w w' = drop (length (trace w)) (trace w')"

definition complete :: "CredentialProvider \<Rightarrow> bool" where
  "complete self = (case credentials self of Some c \<Rightarrow> check_config c = [] | None \<Rightarrow> False)"

definition env_value :: "(string \<rightharpoonup> string) \<Rightarrow> string \<Rightarrow> string \<Rightarrow> pyval" where
  "env_value env acct key =
     (case env (key @ ''_'' @ acct) of Some s \<Rightarrow> PStr s | None \<Rightarrow> of_env (env key))"

definition env_config :: "(string \<rightharpoonup> string) \<Rightarrow> string \<Rightarrow> Config" where
  "env_config env acct =
     \<lparr>refresh_token = env_value env acct ''SP_API_REFRESH_TOKEN'',
      lwa_app_id = env_value env acct ''LWA_APP_ID'',
      lwa_client_secret = env_value env acct ''LWA_CLIENT_SECRET'',
      aws_access_key = env_value env acct ''SP_API_ACCESS_KEY'',
      aws_secret_key = env_value env acct ''SP_API_SECRET_KEY'',
      role_arn = env_value env acct ''SP_API_ROLE_ARN''\<rparr>"

definition env_keys :: "string list" where
  "env_keys = [''SP_API_REFRESH_TOKEN'', ''LWA_APP_ID'', ''LWA_CLIENT_SECRET'',
     ''SP_API_SECRET_KEY'', ''SP_API_ACCESS_KEY'', ''SP_API_ROLE_ARN'']"

definition env_reads :: "string \<Rightarrow> event list" where
  "env_reads acct = concat (map (\<lambda>k. [EnvironGet k, EnvironGet (k @ ''_'' @ acct)]) env_keys)"

definition fetch_prefix :: "string \<Rightarrow> event list" where
  "fetch_prefix sid = [Call ''from_secrets'', EnvironGet ''SP_API_AWS_SECRET_ID'',
     EnvironGet ''SP_API_AWS_SECRET_ID'', GetSecretValue sid]"

definition quiet_world :: world where
  "quiet_world = \<lparr>environ = Map.empty, cache = Map.empty, boto3_client = None,
     secretsmanager = (\<lambda>sid. Inl ClientError), credentials_yml = None, trace = []\<rparr>"

definition evolves :: "world \<Rightarrow> world \<Rightarrow> bool" where
  "evolves w w' \<longleftrightarrow>
     environ w' = environ w \<and> boto3_client w' = boto3_client w
     \<and> secretsmanager w' = secretsmanager w
     \<and> credentials_yml w' = credentials_yml w
     \<and> (\<forall>k. k \<noteq> ''account_data'' \<longrightarrow> cache w' k = cache w k)
     \<and> (\<exists>evs. trace w' = trace w @ evs \<and> list_all cache_key_ok evs)"

definition full_secret :: pydict where
  "full_secret = [(''SP_API_REFRESH_TOKEN'', PStr ''rt''), (''LWA_APP_ID'', PStr ''id''),
     (''LWA_CLIENT_SECRET'', PStr ''cs''), (''SP_API_SECRET_KEY'', PStr ''sk''),
     (''SP_API_ACCESS_KEY'', PStr ''ak''), (''SP_API_ROLE_ARN'', PStr ''arn'')]"

definition partial_secret :: pydict where
  "partial_secret = [(''SP_API_REFRESH_TOKEN'', PStr ''rt''), (''LWA_APP_ID'', PStr ''id''),
     (''LWA_CLIENT_SECRET'', PStr ''cs''), (''SP_API_ACCESS_KEY'', PStr ''ak'')]"

definition full_config :: Config where
  "full_config = \<lparr>refresh_token = PStr ''rt'', lwa_app_id = PStr ''id'',
     lwa_client_secret = PStr ''cs'', aws_access_key = PStr ''ak'',
     aws_secret_key = PStr ''sk'', role_arn = PStr ''arn''\<rparr>"

definition partial_config :: Config where
  "partial_config = \<lparr>refresh_token = PStr ''rt'', lwa_app_id = PStr ''id'',
     lwa_client_secret = PStr ''cs'', aws_access_key = PStr ''ak'',
     aws_secret_key = PNone, role_arn = PNone\<rparr>"

definition blank_config :: Config where
  "blank_config = \<lparr>refresh_token = PNone, lwa_app_id = PNone, lwa_client_secret = PNone,
     aws_access_key = PNone, aws_secret_key = PNone, role_arn = PNone\<rparr>"

definition secret_world :: "pydict \<Rightarrow> world" where
  "secret_world secret = \<lparr>environ = [''SP_API_AWS_SECRET_ID'' \<mapsto> ''prod''], cache = Map.empty,
     boto3_client = None,
     secretsmanager = (\<lambda>sid. if sid = ''prod'' then Inr (Object secret) else Inl ClientError),
     credentials_yml = None, trace = []\<rparr>"

definition denied_world :: world where
  "denied_world = \<lparr>environ = [''SP_API_AWS_SECRET_ID'' \<mapsto> ''prod''], cache = Map.empty,
     boto3_client = None, secretsmanager = (\<lambda>sid. Inl ClientError), credentials_yml = None,
     trace = []\<rparr>"

definition scoped_world :: world where
  "scoped_world = \<lparr>environ = [''LWA_APP_ID'' \<mapsto> ''plain'', ''LWA_APP_ID_myaccount'' \<mapsto> ''scoped''],
     cache = Map.empty, boto3_client = None, secretsmanager = (\<lambda>sid. Inl ClientError),
     credentials_yml = None, trace = []\<rparr>"

definition partial_section :: pydict where
  "partial_section = [(''refresh_token'', PStr ''rt''), (''lwa_app_id'', PStr ''id''),
     (''lwa_client_secret'', PStr ''cs''), (''aws_access_key'', PStr ''ak''),
     (''aws_secret_key'', PNone)]"


definition full_section :: pydict where
  "full_section = [(''refresh_token'', PStr ''rt''), (''lwa_app_id'', PStr ''id''),
     (''lwa_client_secret'', PStr ''cs''), (''aws_access_key'', PStr ''ak''),
     (''aws_secret_key'', PStr ''sk''), (''role_arn'', PStr ''arn'')]"

definition offline_world :: world where
  "offline_world = \<lparr>environ = [''SP_API_AWS_SECRET_ID'' \<mapsto> ''prod''], cache = Map.empty,
     boto3_client = None,
     secretsmanager = (\<lambda>sid. Inl (BotoCoreError ''EndpointConnectionError'')),
     credentials_yml = Some [''default'' \<mapsto> full_section], trace = []\<rparr>"

definition no_refresh_creds :: pydict where
  "no_refresh_creds = [(''lwa_app_id'', PStr ''id''), (''lwa_client_secret'', PStr ''cs''),
     (''aws_access_key'', PStr ''ak''), (''aws_secret_key'', PStr ''sk'')]"

definition no_secret_key_mapping :: pydict where
  "no_secret_key_mapping = [(''refresh_token'', PStr ''rt''), (''lwa_app_id'', PStr ''id''),
     (''lwa_client_secret'', PStr ''cs''), (''aws_access_key'', PStr ''ak'')]"

definition default_self :: CredentialProvider where
  "default_self = \<lparr>account = ''default'', credentials = None\<rparr>"

section \<open>Auxiliary facts\<close>

lemma check_config_unfold:
  "check_config c =
     (if truthy (lwa_app_id c) then [] else [''lwa_app_id'']) @
     (if truthy (lwa_client_secret c) then [] else [''lwa_client_secret'']) @
     (if truthy (aws_access_key c) then [] else [''aws_access_key'']) @
     (if truthy (aws_secret_key c) then [] else [''aws_secret_key''])"
  by (simp add: check_config_def dict_items_def)

lemma getattr_simps:
  "getattr c ''lwa_app_id'' = lwa_app_id c"
  "getattr c ''lwa_client_secret'' = lwa_client_secret c"
  "getattr c ''aws_access_key'' = aws_access_key c"
  "getattr c ''aws_secret_key'' = aws_secret_key c"
  by (simp_all add: getattr_def dict_items_def dict_get_def)

lemma check_config_filter:
  "check_config c = filter (\<lambda>k. \<not> truthy (getattr c k)) required_fields"
  by (simp add: check_config_unfold required_fields_def getattr_simps)

lemma Config_init_fields:
  assumes "Config_init kw = Inr c"
  shows "refresh_token c = dict_get kw ''refresh_token''"
    and "lwa_app_id c = dict_get kw ''lwa_app_id''"
    and "lwa_client_secret c = dict_get kw ''lwa_client_secret''"
    and "aws_access_key c = dict_get kw ''aws_access_key''"
    and "aws_secret_key c = dict_get kw ''aws_secret_key''"
    and "role_arn c = dict_get kw ''role_arn''"
  using assms by (auto simp: Config_init_def split: if_splits)

lemma Config_init_six:
  "Config_init [(''refresh_token'', v1), (''lwa_app_id'', v2), (''lwa_client_secret'', v3),
                (''aws_secret_key'', v4), (''aws_access_key'', v5), (''role_arn'', v6)] =
     Inr \<lparr>refresh_token = v1, lwa_app_id = v2, lwa_client_secret = v3,
          aws_access_key = v5, aws_secret_key = v4, role_arn = v6\<rparr>"
  by (simp add: Config_init_def Config_params_def Config_positional_def dict_get_def)

lemma log_simps [simp]:
  "trace (log e w) = trace w @ [e]"
  "environ (log e w) = environ w"
  "cache (log e w) = cache w"
  "boto3_client (log e w) = boto3_client w"
  "secretsmanager (log e w) = secretsmanager w"
  "credentials_yml (log e w) = credentials_yml w"
  by (simp_all add: log_def)

lemma get_env_eq:
  "get_env self key w =
     (env_value (environ w) (account self) key,
      w\<lparr>trace := trace w @ [EnvironGet key, EnvironGet (key @ ''_'' @ account self)]\<rparr>)"
  by (simp add: get_env_def environ_get_def log_def env_value_def)

lemma env_account_data_eq:
  "env_account_data self w =
     ([(''refresh_token'', env_value (environ w) (account self) ''SP_API_REFRESH_TOKEN''),
       (''lwa_app_id'', env_value (environ w) (account self) ''LWA_APP_ID''),
       (''lwa_client_secret'', env_value (environ w) (account self) ''LWA_CLIENT_SECRET''),
       (''aws_secret_key'', env_value (environ w) (account self) ''SP_API_SECRET_KEY''),
       (''aws_access_key'', env_value (environ w) (account self) ''SP_API_ACCESS_KEY''),
       (''role_arn'', env_value (environ w) (account self) ''SP_API_ROLE_ARN'')],
      w\<lparr>trace := trace w @ env_reads (account self)\<rparr>)"
  by (simp add: env_account_data_def get_env_eq env_reads_def env_keys_def)

lemma from_env_hit:
  "cache w ''account_data'' = Some j \<Longrightarrow>
   from_env self w =
     set_and_check (json_loads j) self
       (w\<lparr>trace := trace w @ [Call ''from_env'', CacheGet ''account_data'']\<rparr>)"
  by (simp add: from_env_def cache_getitem_def log_def)

lemma from_env_miss:
  "cache w ''account_data'' = None \<Longrightarrow>
   from_env self w =
     (Inr (Some (check_config (env_config (environ w) (account self)) = [])),
      self\<lparr>credentials := Some (env_config (environ w) (account self))\<rparr>,
      w\<lparr>trace := trace w @ [Call ''from_env'', CacheGet ''account_data'']
             @ env_reads (account self)\<rparr>)"
  by (simp add: from_env_def cache_getitem_def env_account_data_eq set_and_check_def
      Config_init_six log_def env_config_def)

lemma from_secrets_unset:
  "environ w ''SP_API_AWS_SECRET_ID'' = None \<or> environ w ''SP_API_AWS_SECRET_ID'' = Some [] \<Longrightarrow>
   from_secrets self w =
     (Inr None, self,
      w\<lparr>trace := trace w @ [Call ''from_secrets'', EnvironGet ''SP_API_AWS_SECRET_ID'']\<rparr>)"
  by (auto simp: from_secrets_def environ_get_def log_def)

lemma decode_secret_exn: "decode_secret response = Inl e \<Longrightarrow> e \<noteq> ClientError"
  by (auto simp: decode_secret_def split: secret_string.splits)

lemma from_secrets_no_client:
  "environ w ''SP_API_AWS_SECRET_ID'' = Some sid \<Longrightarrow> sid \<noteq> [] \<Longrightarrow>
   boto3_client w = Some e \<Longrightarrow>
   from_secrets self w =
     (if e = ClientError then Inr None else Inl e, self,
      w\<lparr>trace := trace w @ [Call ''from_secrets'', EnvironGet ''SP_API_AWS_SECRET_ID'']\<rparr>)"
  by (simp add: from_secrets_def secrets_try_def environ_get_def log_def)

lemma from_secrets_raises:
  "environ w ''SP_API_AWS_SECRET_ID'' = Some sid \<Longrightarrow> sid \<noteq> [] \<Longrightarrow>
   boto3_client w = None \<Longrightarrow> secretsmanager w sid = Inl e \<Longrightarrow>
   from_secrets self w =
     (if e = ClientError then Inr None else Inl e, self,
      w\<lparr>trace := trace w @ fetch_prefix sid\<rparr>)"
  by (simp add: from_secrets_def secrets_try_def environ_get_def get_secret_value_def
      log_def fetch_prefix_def)

lemma from_secrets_undecoded:
  "environ w ''SP_API_AWS_SECRET_ID'' = Some sid \<Longrightarrow> sid \<noteq> [] \<Longrightarrow>
   boto3_client w = None \<Longrightarrow> secretsmanager w sid = Inr response \<Longrightarrow>
   decode_secret response = Inl e \<Longrightarrow>
   from_secrets self w = (Inl e, self, w\<lparr>trace := trace w @ fetch_prefix sid\<rparr>)"
  by (simp add: from_secrets_def secrets_try_def environ_get_def get_secret_value_def
      log_def fetch_prefix_def decode_secret_exn)

lemma from_secrets_fetched:
  "environ w ''SP_API_AWS_SECRET_ID'' = Some sid \<Longrightarrow> sid \<noteq> [] \<Longrightarrow>
   boto3_client w = None \<Longrightarrow> secretsmanager w sid = Inr (Object secret) \<Longrightarrow>
   from_secrets self w =
     set_and_check (secret_account_data secret) self
       (w\<lparr>trace := trace w @ fetch_prefix sid @ [CacheSet ''account_data''],
          cache := (cache w)(''account_data'' \<mapsto> json_dumps (secret_account_data secret))\<rparr>)"
  by (simp add: from_secrets_def secrets_try_def environ_get_def get_secret_value_def
      cache_setitem_def log_def fetch_prefix_def decode_secret_def)

lemma env_reads_filters [simp]:
  "filter is_call (env_reads a) = []"
  "filter is_fetch (env_reads a) = []"
  "list_all cache_key_ok (env_reads a)"
  by (simp_all add: env_reads_def env_keys_def)

lemma fetch_prefix_filters [simp]:
  "filter is_call (fetch_prefix sid) = [Call ''from_secrets'']"
  "filter is_fetch (fetch_prefix sid) = [GetSecretValue sid]"
  "list_all cache_key_ok (fetch_prefix sid)"
  by (simp_all add: fetch_prefix_def)

lemma set_and_check_world:
  "set_and_check d self w = (r, self', w') \<Longrightarrow> w' = w"
  by (simp add: set_and_check_def split: sum.splits)

lemma set_and_check_self:
  "set_and_check d self w = (r, self', w') \<Longrightarrow> account self' = account self"
  by (auto simp add: set_and_check_def split: sum.splits)

lemma set_and_check_complete:
  "set_and_check d self w = (Inr (Some True), self', w') \<Longrightarrow> complete self'"
  by (auto simp add: set_and_check_def complete_def split: sum.splits)

lemma from_env_world:
  assumes "from_env self w = (r, self', w')"
  shows "\<exists>evs. w' = w\<lparr>trace := trace w @ evs\<rparr> \<and> filter is_call evs = [Call ''from_env'']
           \<and> filter is_fetch evs = [] \<and> list_all cache_key_ok evs"
proof (cases "cache w ''account_data''")
  case None
  with assms have "w' = w\<lparr>trace := trace w @ [Call ''from_env'', CacheGet ''account_data'']
             @ env_reads (account self)\<rparr>"
    by (simp add: from_env_miss)
  then show ?thesis by (intro exI[of _ "[Call ''from_env'', CacheGet ''account_data'']
             @ env_reads (account self)"]) simp
next
  case (Some j)
  with assms have "w' = w\<lparr>trace := trace w @ [Call ''from_env'', CacheGet ''account_data'']\<rparr>"
    by (simp add: from_env_hit set_and_check_world)
  then show ?thesis by (intro exI[of _ "[Call ''from_env'', CacheGet ''account_data'']"]) simp
qed

lemma from_env_self:
  assumes "from_env self w = (r, self', w')"
  shows "account self' = account self" and "r = Inr (Some True) \<Longrightarrow> complete self'"
proof -
  show "account self' = account self"
    using assms by (cases "cache w ''account_data''")
      (auto simp: from_env_miss from_env_hit set_and_check_self)
  show "complete self'" if "r = Inr (Some True)"
  proof (cases "cache w ''account_data''")
    case None
    with assms that show ?thesis by (auto simp: from_env_miss complete_def)
  next
    case (Some j)
    with assms that show ?thesis by (auto simp: from_env_hit dest: set_and_check_complete)
  qed
qed

lemma from_secrets_cases:
  obtains (unset) "environ w ''SP_API_AWS_SECRET_ID'' = None \<or> environ w ''SP_API_AWS_SECRET_ID'' = Some []"
  | (failed) sid r evs where "environ w ''SP_API_AWS_SECRET_ID'' = Some sid" and "sid \<noteq> []"
      and "\<And>self. from_secrets self w = (r, self, w\<lparr>trace := trace w @ evs\<rparr>)"
      and "r \<noteq> Inr (Some True)"
      and "evs = [Call ''from_secrets'', EnvironGet ''SP_API_AWS_SECRET_ID''] \<or> evs = fetch_prefix sid"
  | (fetched) sid secret where "environ w ''SP_API_AWS_SECRET_ID'' = Some sid" and "sid \<noteq> []"
      and "boto3_client w = None" and "secretsmanager w sid = Inr (Object secret)"
proof (cases "environ w ''SP_API_AWS_SECRET_ID''")
  case None
  then show ?thesis using unset by simp
next
  case (Some sid)
  show ?thesis
  proof (cases "sid = []")
    case True
    with Some show ?thesis using unset by simp
  next
    case ne: False
    show ?thesis
    proof (cases "boto3_client w")
      case (Some e)
      show ?thesis
        by (rule failed [OF \<open>environ w ''SP_API_AWS_SECRET_ID'' = Some sid\<close> ne
              from_secrets_no_client [OF \<open>environ w ''SP_API_AWS_SECRET_ID'' = Some sid\<close> ne Some]])
          auto
    next
      case None
      note env = \<open>environ w ''SP_API_AWS_SECRET_ID'' = Some sid\<close>
      show ?thesis
      proof (cases "secretsmanager w sid")
        case (Inl e)
        show ?thesis
          by (rule failed [OF env ne from_secrets_raises [OF env ne None Inl]]) auto
      next
        case (Inr response)
        show ?thesis
        proof (cases "decode_secret response")
          case (Inl e)
          show ?thesis
            by (rule failed [OF env ne from_secrets_undecoded [OF env ne None Inr Inl]]) auto
        next
          case r: (Inr secret)
          then have "response = Object secret"
            by (auto simp: decode_secret_def split: secret_string.splits)
          with Inr show ?thesis using fetched [OF env ne None] by simp
        qed
      qed
    qed
  qed
qed

lemma from_secrets_world:
  assumes "from_secrets self w = (r, self', w')"
  shows "\<exists>evs. (w' = w\<lparr>trace := trace w @ evs\<rparr>
            \<or> (\<exists>secret. w' = w\<lparr>trace := trace w @ evs,
                  cache := (cache w)(''account_data'' \<mapsto> json_dumps (secret_account_data secret))\<rparr>))
           \<and> filter is_call evs = [Call ''from_secrets''] \<and> length (filter is_fetch evs) \<le> 1
           \<and> list_all cache_key_ok evs"
proof (cases w rule: from_secrets_cases)
  case unset
  with assms have "w' = w\<lparr>trace := trace w @ [Call ''from_secrets'', EnvironGet ''SP_API_AWS_SECRET_ID'']\<rparr>"
    by (auto simp: from_secrets_unset)
  then show ?thesis
    by (intro exI[of _ "[Call ''from_secrets'', EnvironGet ''SP_API_AWS_SECRET_ID'']"]) simp
next
  case (failed sid r0 evs)
  with assms have "w' = w\<lparr>trace := trace w @ evs\<rparr>" by simp
  with failed(5) show ?thesis
    by (intro exI[of _ evs]) auto
next
  case (fetched sid secret)
  with assms have "w' = w\<lparr>trace := trace w @ fetch_prefix sid @ [CacheSet ''account_data''],
      cache := (cache w)(''account_data'' \<mapsto> json_dumps (secret_account_data secret))\<rparr>"
    by (simp add: from_secrets_fetched set_and_check_world)
  then show ?thesis
    by (intro exI[of _ "fetch_prefix sid @ [CacheSet ''account_data'']"]) auto
qed

lemma from_secrets_self:
  assumes "from_secrets self w = (r, self', w')"
  shows "account self' = account self" and "r = Inr (Some True) \<Longrightarrow> complete self'"
proof -
  show "account self' = account self"
  proof (cases w rule: from_secrets_cases)
    case unset
    with assms show ?thesis by (auto simp: from_secrets_unset)
  next
    case (failed sid r0 evs)
    with assms show ?thesis by simp
  next
    case (fetched sid secret)
    with assms show ?thesis by (auto simp: from_secrets_fetched set_and_check_self)
  qed
  show "complete self'" if "r = Inr (Some True)"
  proof (cases w rule: from_secrets_cases)
    case unset
    with assms that show ?thesis by (auto simp: from_secrets_unset)
  next
    case (failed sid r0 evs)
    with assms that show ?thesis by simp
  next
    case (fetched sid secret)
    with assms that show ?thesis
      by (auto simp: from_secrets_fetched dest: set_and_check_complete)
  qed
qed

lemma read_config_effect:
  assumes "read_config self w = (r, self', w')"
  shows "w' = w\<lparr>trace := trace w @ [Call ''read_config'']\<rparr>"
    and "account self' = account self"
    and "r = Inr x \<Longrightarrow> x = Some True \<and> complete self'"
  using assms
  by (auto simp: read_config_def Let_def log_def complete_def
      split: option.splits sum.splits if_splits)

lemma sublist_join: "x \<in> set xs \<Longrightarrow> sublist x (join sep xs)"
proof (induction sep xs rule: join.induct)
  case (1 sep)
  then show ?case by simp
next
  case (2 sep y)
  then show ?case by simp
next
  case (3 sep a b bs)
  show ?case
  proof (cases "x = a")
    case True
    then show ?thesis by (simp add: sublist_append_rightI)
  next
    case False
    with 3 have "sublist x (join sep (b # bs))" by simp
    then have "sublist x ((a @ sep) @ join sep (b # bs))"
      using sublist_append by blast
    then show ?thesis by simp
  qed
qed

lemma sublist_missing_msg: "k \<in> set missing \<Longrightarrow> sublist k (missing_msg missing)"
proof -
  assume k: "k \<in> set missing"
  then have "repr_str k \<in> set (map repr_str missing)" by simp
  then have a: "sublist (repr_str k) (join '', '' (map repr_str missing))"
    by (rule sublist_join)
  have b: "sublist k (repr_str k)"
    unfolding repr_str_def by (rule sublist_appendI)
  have c: "sublist (join '', '' (map repr_str missing)) (missing_msg missing)"
    unfolding missing_msg_def repr_list_def
    by (metis append.assoc sublist_appendI)
  from b a c show ?thesis by (meson sublist_order.order_trans)
qed

lemma Config_init_ok:
  "set (map fst kw) \<subseteq> set Config_params \<Longrightarrow> set Config_positional \<subseteq> set (map fst kw) \<Longrightarrow>
   \<exists>c. Config_init kw = Inr c"
  by (auto simp: Config_init_def list_ex_iff)

lemma init_explicit:
  "creds \<noteq> [] \<Longrightarrow>
   CredentialProvider_init acct (Some creds) w =
     (case Config_init creds of
        Inl e \<Rightarrow> (Inl e, w)
      | Inr c \<Rightarrow>
          if check_config c \<noteq> []
          then (Inl (MissingCredentials (missing_msg (check_config c))), w)
          else (Inr \<lparr>account = acct, credentials = Some c\<rparr>, w))"
  by (cases creds) (auto simp: CredentialProvider_init_def split: sum.splits)


lemma set_and_check_snd: "snd (snd (set_and_check d self w)) = w"
  by (simp add: set_and_check_def split: sum.splits)


lemma init_load:
  "creds = None \<or> creds = Some [] \<Longrightarrow>
   CredentialProvider_init acct creds w =
     (case load_loop [from_env, from_secrets, read_config] \<lparr>account = acct, credentials = None\<rparr> w of
        (Inl e, s, w') \<Rightarrow> (Inl e, w') | (Inr r, s, w') \<Rightarrow> (Inr s, w'))"
  by (auto simp: CredentialProvider_init_def load_credentials_def read_credentials_def)

lemma from_secrets_trace:
  assumes "from_secrets self w = (r, self', w')"
  shows "\<exists>evs. trace w' = trace w @ evs \<and> filter is_call evs = [Call ''from_secrets'']"
  using from_secrets_world[OF assms] by auto

lemma new_events_append: "trace w' = trace w @ evs \<Longrightarrow> new_events w w' = evs"
  by (simp add: new_events_def)

lemma evolves_refl: "evolves w w"
  by (simp add: evolves_def)

lemma evolves_trans:
  assumes "evolves w w1" and "evolves w1 w2"
  shows "evolves w w2"
proof -
  from assms(1) obtain e1 where e1: "trace w1 = trace w @ e1" "list_all cache_key_ok e1"
    unfolding evolves_def by blast
  from assms(2) obtain e2 where e2: "trace w2 = trace w1 @ e2" "list_all cache_key_ok e2"
    unfolding evolves_def by blast
  from e1 e2 have "trace w2 = trace w @ (e1 @ e2) \<and> list_all cache_key_ok (e1 @ e2)"
    by simp
  then have "\<exists>evs. trace w2 = trace w @ evs \<and> list_all cache_key_ok evs"
    by blast
  with assms show ?thesis
    unfolding evolves_def by simp
qed

lemma from_env_evolves: "from_env self w = (r, self', w') \<Longrightarrow> evolves w w'"
  by (drule from_env_world) (auto simp: evolves_def)

lemma from_secrets_evolves: "from_secrets self w = (r, self', w') \<Longrightarrow> evolves w w'"
  by (drule from_secrets_world) (auto simp: evolves_def)

lemma read_config_evolves: "read_config self w = (r, self', w') \<Longrightarrow> evolves w w'"
  by (drule read_config_effect(1)) (auto simp: evolves_def)

lemma load_loop_evolves:
  assumes "\<forall>m \<in> set ms. \<forall>s v r s' v'. m s v = (r, s', v') \<longrightarrow> evolves v v'"
    and "load_loop ms self w = (r, self', w')"
  shows "evolves w w'"
  using assms
proof (induction ms arbitrary: self w)
  case Nil
  then show ?case by (simp add: evolves_refl)
next
  case (Cons m ms)
  obtain r1 s1 w1 where m: "m self w = (r1, s1, w1)" by (cases "m self w")
  with Cons.prems(1) have ev1: "evolves w w1" by auto
  show ?case
  proof (cases "r1 = Inr None \<or> r1 = Inr (Some False)")
    case True
    with m Cons.prems(2) have "load_loop ms s1 w1 = (r, self', w')" by auto
    with Cons.IH Cons.prems(1) have "evolves w1 w'" by auto
    with ev1 show ?thesis by (rule evolves_trans)
  next
    case False
    with m Cons.prems(2) have "w' = w1"
      by (cases r1) (auto split: if_splits)
    with ev1 show ?thesis by simp
  qed
qed

lemma init_evolves: "evolves w (snd (CredentialProvider_init acct creds w))"
proof (cases "creds = None \<or> creds = Some []")
  case True
  obtain r s v where l: "load_loop [from_env, from_secrets, read_config]
      \<lparr>account = acct, credentials = None\<rparr> w = (r, s, v)"
    by (cases "load_loop [from_env, from_secrets, read_config]
      \<lparr>account = acct, credentials = None\<rparr> w")
  have "evolves w v"
    by (rule load_loop_evolves[OF _ l])
      (auto dest: from_env_evolves from_secrets_evolves read_config_evolves)
  with l show ?thesis
    by (simp add: init_load[OF True] split: sum.splits)
next
  case False
  then obtain kw where "creds = Some kw" "kw \<noteq> []" by (cases creds) auto
  then show ?thesis
    by (simp add: init_explicit evolves_refl split: sum.splits)
qed

lemma from_secrets_success:
  assumes "from_secrets self w = (Inr (Some True), self', w')"
  shows "\<exists>secret c. cache w' ''account_data'' = Some (json_dumps (secret_account_data secret))
      \<and> Config_init (secret_account_data secret) = Inr c \<and> check_config c = []
      \<and> credentials self' = Some c
      \<and> (\<exists>evs. trace w' = trace w @ evs \<and> length (filter is_fetch evs) = 1)"
proof (cases w rule: from_secrets_cases)
  case unset
  with assms show ?thesis by (simp add: from_secrets_unset)
next
  case (failed sid r0 evs)
  with assms show ?thesis by simp
next
  case (fetched sid secret)
  with assms have sc: "set_and_check (secret_account_data secret) self
      (w\<lparr>trace := trace w @ fetch_prefix sid @ [CacheSet ''account_data''],
         cache := (cache w)(''account_data'' \<mapsto> json_dumps (secret_account_data secret))\<rparr>)
      = (Inr (Some True), self', w')"
    by (simp add: from_secrets_fetched)
  from set_and_check_world[OF sc] have w': "w' = w\<lparr>trace := trace w @ fetch_prefix sid @ [CacheSet ''account_data''],
         cache := (cache w)(''account_data'' \<mapsto> json_dumps (secret_account_data secret))\<rparr>"
    by simp
  from sc obtain c where c: "Config_init (secret_account_data secret) = Inr c"
    "check_config c = []" "credentials self' = Some c"
    by (auto simp: set_and_check_def split: sum.splits)
  have "trace w' = trace w @ (fetch_prefix sid @ [CacheSet ''account_data''])
      \<and> length (filter is_fetch (fetch_prefix sid @ [CacheSet ''account_data''])) = 1"
    using w' by simp
  then have "\<exists>evs. trace w' = trace w @ evs \<and> length (filter is_fetch evs) = 1"
    by blast
  with c w' show ?thesis by auto
qed

lemma from_env_cached:
  assumes "cache w ''account_data'' = Some (json_dumps d)" and "Config_init d = Inr c"
  shows "from_env self w =
     (Inr (Some (check_config c = [])), self\<lparr>credentials := Some c\<rparr>,
      w\<lparr>trace := trace w @ [Call ''from_env'', CacheGet ''account_data'']\<rparr>)"
  using assms by (simp add: from_env_hit json_dumps_def set_and_check_def)

lemma init_cached_complete:
  assumes "cache w ''account_data'' = Some (json_dumps d)" and "Config_init d = Inr c"
    and "check_config c = []"
  shows "CredentialProvider_init acct None w =
     (Inr \<lparr>account = acct, credentials = Some c\<rparr>,
      w\<lparr>trace := trace w @ [Call ''from_env'', CacheGet ''account_data'']\<rparr>)"
    and "filter is_fetch (new_events w (snd (CredentialProvider_init acct creds w))) = []"
proof -
  have l: "load_loop [from_env, from_secrets, read_config] \<lparr>account = acct, credentials = None\<rparr> w
      = (Inr (Some True), \<lparr>account = acct, credentials = Some c\<rparr>,
         w\<lparr>trace := trace w @ [Call ''from_env'', CacheGet ''account_data'']\<rparr>)"
    by (simp add: from_env_cached[OF assms(1,2)] assms(3))
  have i: "CredentialProvider_init acct cr w =
     (Inr \<lparr>account = acct, credentials = Some c\<rparr>,
      w\<lparr>trace := trace w @ [Call ''from_env'', CacheGet ''account_data'']\<rparr>)"
    if "cr = None \<or> cr = Some []" for cr
    unfolding init_load[OF that] l by simp
  from i show "CredentialProvider_init acct None w =
     (Inr \<lparr>account = acct, credentials = Some c\<rparr>,
      w\<lparr>trace := trace w @ [Call ''from_env'', CacheGet ''account_data'']\<rparr>)"
    by simp
  show "filter is_fetch (new_events w (snd (CredentialProvider_init acct creds w))) = []"
  proof (cases "creds = None \<or> creds = Some []")
    case True
    then show ?thesis by (simp add: i new_events_def)
  next
    case False
    then obtain kw where "creds = Some kw" "kw \<noteq> []" by (cases creds) auto
    then show ?thesis
      by (simp add: init_explicit new_events_def split: sum.splits)
  qed
qed

lemma triple_collapse: "x = (fst x, fst (snd x), snd (snd x))"
  by simp

lemma secret_world_simps:
  "environ (secret_world s) ''SP_API_AWS_SECRET_ID'' = Some ''prod''"
  "cache (secret_world s) = Map.empty"
  "secretsmanager (secret_world s) ''prod'' = Inr (Object s)"
  "trace (secret_world s) = []"
  "boto3_client (secret_world s) = None"
  by (simp_all add: secret_world_def)

lemma secret_world_env_config: "env_config (environ (secret_world s)) a = blank_config"
  by (simp add: secret_world_def env_config_def env_value_def of_env_def blank_config_def)

lemma full_secret_config: "Config_init (secret_account_data full_secret) = Inr full_config"
  by (simp add: secret_account_data_def full_secret_def dict_get_def Config_init_six
      full_config_def)

lemma partial_secret_config:
  "Config_init (secret_account_data partial_secret) = Inr partial_config"
  by (simp add: secret_account_data_def partial_secret_def dict_get_def Config_init_six
      partial_config_def)

lemma sample_checks:
  "check_config full_config = []"
  "check_config partial_config = [''aws_secret_key'']"
  "check_config blank_config
     = [''lwa_app_id'', ''lwa_client_secret'', ''aws_access_key'', ''aws_secret_key'']"
  by (simp_all add: check_config_unfold full_config_def partial_config_def blank_config_def)

lemma secret_world_from_env:
  "from_env \<lparr>account = a, credentials = None\<rparr> (secret_world s) =
     (Inr (Some False), \<lparr>account = a, credentials = Some blank_config\<rparr>,
      (secret_world s)\<lparr>trace := [Call ''from_env'', CacheGet ''account_data''] @ env_reads a\<rparr>)"
  by (simp add: from_env_miss secret_world_simps secret_world_env_config sample_checks)

lemma secret_world_from_secrets:
  "fst (from_secrets self
      ((secret_world full_secret)\<lparr>trace := evs\<rparr>)) = Inr (Some True)"
  "fst (snd (from_secrets self
      ((secret_world full_secret)\<lparr>trace := evs\<rparr>))) = self\<lparr>credentials := Some full_config\<rparr>"
  by (simp_all add: from_secrets_fetched [where sid = "''prod''" and secret = full_secret]
      secret_world_simps set_and_check_def full_secret_config sample_checks)


section \<open>The claims\<close>

subsection \<open>C1\<close>

text \<open>
  Claim C1. A construction without explicit credentials (\<open>None\<close> or an empty
  dictionary) runs the source methods in the order \<open>from_env\<close>, \<open>from_secrets\<close>,
  \<open>read_config\<close>. With \<open>r1\<close>, \<open>r2\<close>, \<open>r3\<close> the results of the three methods, each
  run on the state its predecessor left: the first method whose result is \<open>True\<close> ends
  the construction, the object and the process state are the ones that method left, and
  the invocations logged since the start are exactly the methods up to it. In every case
  the logged invocations are a non-empty prefix of the three in that order, and an object
  that is returned holds a record whose validation reports nothing missing.
\<close>

theorem sources_in_order:
  assumes "creds = None \<or> creds = Some []"
    and e1: "from_env \<lparr>account = acct, credentials = None\<rparr> w = (r1, s1, w1)"
    and e2: "from_secrets s1 w1 = (r2, s2, w2)"
    and e3: "read_config s2 w2 = (r3, s3, w3)"
    and init: "CredentialProvider_init acct creds w = (res, w')"
  shows "(r1 = Inr (Some True) \<longrightarrow>
            res = Inr s1 \<and> w' = w1 \<and> filter is_call (new_events w w') = [Call ''from_env''])
     \<and> ((r1 = Inr None \<or> r1 = Inr (Some False)) \<and> r2 = Inr (Some True) \<longrightarrow>
            res = Inr s2 \<and> w' = w2
            \<and> filter is_call (new_events w w') = [Call ''from_env'', Call ''from_secrets''])
     \<and> ((r1 = Inr None \<or> r1 = Inr (Some False)) \<and> (r2 = Inr None \<or> r2 = Inr (Some False))
          \<and> r3 = Inr (Some True) \<longrightarrow>
            res = Inr s3 \<and> w' = w3
            \<and> filter is_call (new_events w w')
                = [Call ''from_env'', Call ''from_secrets'', Call ''read_config''])
     \<and> prefix (filter is_call (new_events w w'))
          [Call ''from_env'', Call ''from_secrets'', Call ''read_config'']
     \<and> filter is_call (new_events w w') \<noteq> []
     \<and> (\<forall>self'. res = Inr self' \<longrightarrow> complete self')"
proof -
  from from_env_world[OF e1] obtain ev1 where
    t1: "trace w1 = trace w @ ev1" and c1: "filter is_call ev1 = [Call ''from_env'']"
    by auto
  from from_secrets_trace[OF e2] obtain ev2 where
    t2: "trace w2 = trace w1 @ ev2" and c2: "filter is_call ev2 = [Call ''from_secrets'']"
    by auto
  from read_config_effect(1)[OF e3] have t3: "trace w3 = trace w2 @ [Call ''read_config'']"
    by simp
  have n1: "filter is_call (new_events w w1) = [Call ''from_env'']"
    using t1 c1 by (simp add: new_events_append)
  have n2: "filter is_call (new_events w w2) = [Call ''from_env'', Call ''from_secrets'']"
    using t1 t2 c1 c2 by (simp add: new_events_append)
  have n3: "filter is_call (new_events w w3)
      = [Call ''from_env'', Call ''from_secrets'', Call ''read_config'']"
    using t1 t2 t3 c1 c2 by (simp add: new_events_append)
  have k1: "complete s1" if "r1 = Inr (Some True)"
    using from_env_self(2)[OF e1 that] .
  have k2: "complete s2" if "r2 = Inr (Some True)"
    using from_secrets_self(2)[OF e2 that] .
  have k3: "x = Some True \<and> complete s3" if "r3 = Inr x" for x
    using read_config_effect(3)[OF e3 that] .
  have L: "load_loop [from_env, from_secrets, read_config] \<lparr>account = acct, credentials = None\<rparr> w =
     (case r1 of Inl e \<Rightarrow> (Inl e, s1, w1)
      | Inr x1 \<Rightarrow> if x1 = Some True then (Inr (Some True), s1, w1)
          else (case r2 of Inl e \<Rightarrow> (Inl e, s2, w2)
            | Inr x2 \<Rightarrow> if x2 = Some True then (Inr (Some True), s2, w2)
                else (case r3 of Inl e \<Rightarrow> (Inl e, s3, w3)
                  | Inr x3 \<Rightarrow> (Inr (Some True), s3, w3))))"
    using e1 e2 e3 k3 by (auto split: sum.splits)
  have I: "(res, w') =
     (case r1 of Inl e \<Rightarrow> (Inl e, w1)
      | Inr x1 \<Rightarrow> if x1 = Some True then (Inr s1, w1)
          else (case r2 of Inl e \<Rightarrow> (Inl e, w2)
            | Inr x2 \<Rightarrow> if x2 = Some True then (Inr s2, w2)
                else (case r3 of Inl e \<Rightarrow> (Inl e, w3)
                  | Inr x3 \<Rightarrow> (Inr s3, w3))))"
    unfolding init[symmetric] init_load[OF assms(1)] L
    by (simp split: sum.splits)
  have A: "r1 = Inr (Some True) \<longrightarrow>
            res = Inr s1 \<and> w' = w1 \<and> filter is_call (new_events w w') = [Call ''from_env'']"
    using I n1 by auto
  have B: "(r1 = Inr None \<or> r1 = Inr (Some False)) \<and> r2 = Inr (Some True) \<longrightarrow>
            res = Inr s2 \<and> w' = w2
            \<and> filter is_call (new_events w w') = [Call ''from_env'', Call ''from_secrets'']"
    using I n2 by auto
  have C: "(r1 = Inr None \<or> r1 = Inr (Some False)) \<and> (r2 = Inr None \<or> r2 = Inr (Some False))
          \<and> r3 = Inr (Some True) \<longrightarrow>
            res = Inr s3 \<and> w' = w3
            \<and> filter is_call (new_events w w')
                = [Call ''from_env'', Call ''from_secrets'', Call ''read_config'']"
    using I n3 by auto
  have W: "w' = w1 \<or> w' = w2 \<or> w' = w3"
    using I by (auto split: sum.splits if_splits)
  then have D: "prefix (filter is_call (new_events w w'))
          [Call ''from_env'', Call ''from_secrets'', Call ''read_config'']"
    and E: "filter is_call (new_events w w') \<noteq> []"
    using n1 n2 n3 by auto
  have F: "\<forall>self'. res = Inr self' \<longrightarrow> complete self'"
    using I k1 k2 k3 by (auto split: sum.splits if_splits)
  show ?thesis by (intro conjI A B C D E F)
qed

text \<open>
  An instance: nothing in the environment but the secret identifier, a complete secret
  in the store. \<open>from_env\<close> fails, \<open>from_secrets\<close> succeeds, \<open>read_config\<close> is not
  invoked.
\<close>

theorem sources_in_order_witness:
  "fst (CredentialProvider_init ''default'' None (secret_world full_secret)) =
     Inr \<lparr>account = ''default'', credentials = Some full_config\<rparr>
   \<and> filter is_call (new_events (secret_world full_secret)
         (snd (CredentialProvider_init ''default'' None (secret_world full_secret))))
       = [Call ''from_env'', Call ''from_secrets'']"
proof -
  let ?w = "secret_world full_secret"
  let ?e = "from_env \<lparr>account = ''default'', credentials = None\<rparr> ?w"
  let ?s = "from_secrets (fst (snd ?e)) (snd (snd ?e))"
  have r1: "fst ?e = Inr (Some False)"
    by (simp add: secret_world_from_env)
  have r2: "fst ?s = Inr (Some True)"
    and s2: "fst (snd ?s) = \<lparr>account = ''default'', credentials = Some full_config\<rparr>"
    by (simp_all add: secret_world_from_env secret_world_from_secrets)
  note t = sources_in_order [where creds = None and acct = "''default''" and w = ?w,
      OF disjI1 [OF refl] triple_collapse triple_collapse triple_collapse
        prod.collapse [symmetric]]
  from t [THEN conjunct2, THEN conjunct1] r1 r2
  have 1: "fst (CredentialProvider_init ''default'' None ?w) = Inr (fst (snd ?s))"
    and 2: "filter is_call (new_events ?w (snd (CredentialProvider_init ''default'' None ?w)))
       = [Call ''from_env'', Call ''from_secrets'']"
    by blast+
  from 1 s2 have 3: "fst (CredentialProvider_init ''default'' None ?w) =
     Inr \<lparr>account = ''default'', credentials = Some full_config\<rparr>"
    by simp
  from 3 2 show ?thesis by (rule conjI)
qed

subsection \<open>C2\<close>

text \<open>
  Claim C2, as stated, fails where the key \<open>aws_secret_key\<close> is absent from the
  explicit dictionary: \<open>Config(**credentials)\<close> lacks an argument without default, and
  the construction leaves with \<open>TypeError\<close>, not with \<open>MissingCredentials\<close>.
\<close>

theorem explicit_absent_key_counterexample:
  "map_of [(''refresh_token'', PStr ''t''), (''lwa_app_id'', PStr ''i''),
           (''lwa_client_secret'', PStr ''s''), (''aws_access_key'', PStr ''k'')]
     ''aws_secret_key'' = None
   \<and> CredentialProvider_init ''default''
       (Some [(''refresh_token'', PStr ''t''), (''lwa_app_id'', PStr ''i''),
              (''lwa_client_secret'', PStr ''s''), (''aws_access_key'', PStr ''k'')])
       quiet_world = (Inl TypeError, quiet_world)"
  by (simp add: CredentialProvider_init_def Config_init_def Config_params_def
      Config_positional_def)

text \<open>
  Claim C2, amended. For an explicit dictionary whose keys are all parameters of
  \<open>Config\<close>, which binds the five parameters without default, and in which
  \<open>aws_secret_key\<close> is bound to an empty value (\<open>None\<close>, the empty string, or another
  value Python takes for false), construction raises \<open>MissingCredentials\<close>; the message
  lists the fields validation reports and contains the text \<open>aws_secret_key\<close>. The
  process state is unchanged.
\<close>

theorem explicit_empty_secret_key:
  assumes "set (map fst creds) \<subseteq> set Config_params"
    and "set Config_positional \<subseteq> set (map fst creds)"
    and "\<not> truthy (dict_get creds ''aws_secret_key'')"
  shows "\<exists>c. Config_init creds = Inr c
     \<and> CredentialProvider_init acct (Some creds) w =
         (Inl (MissingCredentials (missing_msg (check_config c))), w)
     \<and> ''aws_secret_key'' \<in> set (check_config c)
     \<and> sublist ''aws_secret_key'' (missing_msg (check_config c))"
proof -
  from Config_init_ok[OF assms(1,2)] obtain c where c: "Config_init creds = Inr c" ..
  from assms(2) have ne: "creds \<noteq> []" by (auto simp: Config_positional_def)
  from c assms(3) have m: "''aws_secret_key'' \<in> set (check_config c)"
    by (simp add: check_config_unfold Config_init_fields)
  then have "check_config c \<noteq> []" by auto
  with c ne have "CredentialProvider_init acct (Some creds) w =
         (Inl (MissingCredentials (missing_msg (check_config c))), w)"
    by (simp add: init_explicit)
  with c m sublist_missing_msg[OF m] show ?thesis by blast
qed

text \<open>An instance: \<open>aws_secret_key\<close> bound to the empty string.\<close>

theorem explicit_empty_secret_key_witness:
  "CredentialProvider_init ''default''
       (Some [(''refresh_token'', PStr ''t''), (''lwa_app_id'', PStr ''i''),
              (''lwa_client_secret'', PStr ''s''), (''aws_access_key'', PStr ''k''),
              (''aws_secret_key'', PStr '''')])
       quiet_world = (Inl (MissingCredentials (missing_msg [''aws_secret_key''])), quiet_world)
     \<and> sublist ''aws_secret_key'' (missing_msg [''aws_secret_key''])"
  using explicit_empty_secret_key [of
      "[(''refresh_token'', PStr ''t''), (''lwa_app_id'', PStr ''i''),
        (''lwa_client_secret'', PStr ''s''), (''aws_access_key'', PStr ''k''),
        (''aws_secret_key'', PStr '''')]" "''default''" quiet_world]
  by (auto simp: Config_params_def Config_positional_def dict_get_def Config_init_def
      check_config_unfold)

subsection \<open>C3\<close>

text \<open>
  Claim C3. When the cache holds an entry under \<open>account_data\<close>, \<open>from_env\<close> builds
  its record from that entry and logs no read of the environment. When a construction
  without explicit credentials fails in \<open>from_env\<close> and succeeds in \<open>from_secrets\<close>,
  exactly one call of the secret store is logged during it; and in every later state of
  the process that has the same cache entry (whatever its environment), a further
  construction, for any account and any credentials argument, logs no call of the secret
  store, and without explicit credentials it returns the credentials of the first.
\<close>

theorem cached_payload_reused:
  "(\<forall>j. cache w ''account_data'' = Some j \<longrightarrow>
      from_env self w =
        set_and_check (json_loads j) self
          (w\<lparr>trace := trace w @ [Call ''from_env'', CacheGet ''account_data'']\<rparr>)
      \<and> filter is_environ_get (new_events w (snd (snd (from_env self w)))) = [])
   \<and> (\<forall>x1 s1 wa s2 w1.
        from_env \<lparr>account = a1, credentials = None\<rparr> w = (Inr x1, s1, wa) \<and> x1 \<noteq> Some True
        \<and> from_secrets s1 wa = (Inr (Some True), s2, w1) \<longrightarrow>
          CredentialProvider_init a1 None w = (Inr s2, w1)
        \<and> length (filter is_fetch (new_events w w1)) = 1
        \<and> (\<forall>w2 a2 creds2. cache w2 ''account_data'' = cache w1 ''account_data'' \<longrightarrow>
              filter is_fetch (new_events w2 (snd (CredentialProvider_init a2 creds2 w2))) = []
            \<and> fst (CredentialProvider_init a2 None w2)
                = Inr \<lparr>account = a2, credentials = credentials s2\<rparr>))"
proof (intro conjI allI impI)
  fix j assume j: "cache w ''account_data'' = Some j"
  show "from_env self w =
        set_and_check (json_loads j) self
          (w\<lparr>trace := trace w @ [Call ''from_env'', CacheGet ''account_data'']\<rparr>)"
    by (rule from_env_hit[OF j])
  show "filter is_environ_get (new_events w (snd (snd (from_env self w)))) = []"
    by (simp add: from_env_hit[OF j] set_and_check_snd new_events_def)
next
  fix x1 s1 wa s2 w1
  assume h: "from_env \<lparr>account = a1, credentials = None\<rparr> w = (Inr x1, s1, wa) \<and> x1 \<noteq> Some True
        \<and> from_secrets s1 wa = (Inr (Some True), s2, w1)"
  then have e1: "from_env \<lparr>account = a1, credentials = None\<rparr> w = (Inr x1, s1, wa)"
    and x1: "x1 \<noteq> Some True"
    and e2: "from_secrets s1 wa = (Inr (Some True), s2, w1)" by auto
  from from_secrets_success[OF e2] obtain secret c evs where
    cw: "cache w1 ''account_data'' = Some (json_dumps (secret_account_data secret))"
    and c: "Config_init (secret_account_data secret) = Inr c" "check_config c = []"
    and cr: "credentials s2 = Some c"
    and t2: "trace w1 = trace wa @ evs" "length (filter is_fetch evs) = 1"
    by blast
  from from_env_world[OF e1] obtain ev1 where
    t1: "trace wa = trace w @ ev1" "filter is_fetch ev1 = []" by auto
  show "CredentialProvider_init a1 None w = (Inr s2, w1)"
    using e1 e2 x1 by (simp add: init_load)
  show "length (filter is_fetch (new_events w w1)) = 1"
    using t1 t2 by (simp add: new_events_def)
  fix w2 :: world and a2 :: string and creds2 :: "pydict option"
  assume "cache w2 ''account_data'' = cache w1 ''account_data''"
  with cw have c2: "cache w2 ''account_data'' = Some (json_dumps (secret_account_data secret))"
    by simp
  show "filter is_fetch (new_events w2 (snd (CredentialProvider_init a2 creds2 w2))) = []"
    by (rule init_cached_complete(2)[OF c2 c])
  show "fst (CredentialProvider_init a2 None w2)
                = Inr \<lparr>account = a2, credentials = credentials s2\<rparr>"
    by (simp add: init_cached_complete(1)[OF c2 c] cr)
qed

text \<open>
  An instance: two constructions in a row, for the accounts \<open>default\<close> and \<open>other\<close>;
  the store is called once in the first and not in the second.
\<close>

theorem cached_payload_reused_witness:
  "length (filter is_fetch (new_events (secret_world full_secret)
      (snd (CredentialProvider_init ''default'' None (secret_world full_secret))))) = 1
   \<and> filter is_fetch
       (new_events (snd (CredentialProvider_init ''default'' None (secret_world full_secret)))
         (snd (CredentialProvider_init ''other'' None
            (snd (CredentialProvider_init ''default'' None (secret_world full_secret)))))) = []
   \<and> fst (CredentialProvider_init ''other'' None
            (snd (CredentialProvider_init ''default'' None (secret_world full_secret))))
       = Inr \<lparr>account = ''other'', credentials = Some full_config\<rparr>"
proof -
  let ?w = "secret_world full_secret"
  let ?s1 = "\<lparr>account = ''default'', credentials = Some blank_config\<rparr>"
  let ?wa = "?w\<lparr>trace := [Call ''from_env'', CacheGet ''account_data''] @ env_reads ''default''\<rparr>"
  have e1: "from_env \<lparr>account = ''default'', credentials = None\<rparr> ?w = (Inr (Some False), ?s1, ?wa)"
    by (rule secret_world_from_env)
  have e2: "from_secrets ?s1 ?wa =
      (Inr (Some True), fst (snd (from_secrets ?s1 ?wa)), snd (snd (from_secrets ?s1 ?wa)))"
    using secret_world_from_secrets(1) [of ?s1]
    by (metis prod.collapse)
  have c: "credentials (fst (snd (from_secrets ?s1 ?wa))) = Some full_config"
    by (simp add: secret_world_from_secrets(2))
  have h: "from_env \<lparr>account = ''default'', credentials = None\<rparr> ?w = (Inr (Some False), ?s1, ?wa)
      \<and> Some False \<noteq> Some True
      \<and> from_secrets ?s1 ?wa =
          (Inr (Some True), fst (snd (from_secrets ?s1 ?wa)), snd (snd (from_secrets ?s1 ?wa)))"
    using e1 e2 by simp
  note r = cached_payload_reused [of ?w default_self "''default''", THEN conjunct2,
      rule_format, OF h]
  from r have i: "snd (CredentialProvider_init ''default'' None ?w)
      = snd (snd (from_secrets ?s1 ?wa))"
    by simp
  from r have n: "length (filter is_fetch (new_events ?w (snd (snd (from_secrets ?s1 ?wa))))) = 1"
    by simp
  from r have k: "filter is_fetch (new_events (snd (snd (from_secrets ?s1 ?wa)))
      (snd (CredentialProvider_init ''other'' None (snd (snd (from_secrets ?s1 ?wa)))))) = []
    \<and> fst (CredentialProvider_init ''other'' None (snd (snd (from_secrets ?s1 ?wa))))
        = Inr \<lparr>account = ''other'',
               credentials = credentials (fst (snd (from_secrets ?s1 ?wa)))\<rparr>"
    by blast
  show ?thesis
    unfolding i using n k c by simp
qed

subsection \<open>C4\<close>

text \<open>
  Claim C4, as stated, fails for a mapping from which a required field is absent. For
  the mapping below the required field that is empty or absent is \<open>aws_secret_key\<close>,
  but \<open>Config\<close> refuses the mapping with \<open>TypeError\<close>, so that there is no record
  and validation returns nothing.
\<close>

theorem check_config_absent_key_counterexample:
  "missing_required no_secret_key_mapping = [''aws_secret_key'']
   \<and> Config_init no_secret_key_mapping = Inl TypeError"
  by (simp add: missing_required_def required_fields_def no_secret_key_mapping_def
      dict_get_def Config_init_def Config_params_def Config_positional_def)

text \<open>
  Claim C4, amended. On every record, \<open>check_config\<close> returns exactly the names among
  \<open>lwa_app_id\<close>, \<open>lwa_client_secret\<close>, \<open>aws_access_key\<close>, \<open>aws_secret_key\<close> whose
  attribute is empty (false for Python: \<open>None\<close>, the empty string, \<open>False\<close>, zero, an
  empty list or dictionary), in that order. For every mapping that \<open>Config\<close> accepts
  (it binds the five parameters without default and has no key that is no parameter)
  these are exactly the required fields the mapping binds to an empty value.
  \<open>refresh_token\<close> and \<open>role_arn\<close> are never returned, whether empty or, for
  \<open>role_arn\<close>, absent.
\<close>

theorem check_config_exact:
  "check_config c = filter (\<lambda>k. \<not> truthy (getattr c k)) required_fields
   \<and> (Config_init kw = Inr c \<longrightarrow> check_config c = missing_required kw)
   \<and> ''refresh_token'' \<notin> set (check_config c)
   \<and> ''role_arn'' \<notin> set (check_config c)"
proof -
  have a: "check_config c = filter (\<lambda>k. \<not> truthy (getattr c k)) required_fields"
    by (rule check_config_filter)
  have b: "check_config c = missing_required kw"
    if "Config_init kw = Inr c"
    using Config_init_fields[OF that]
    by (simp add: check_config_unfold required_fields_def missing_required_def)
  have c: "''refresh_token'' \<notin> set (check_config c)" "''role_arn'' \<notin> set (check_config c)"
    by (simp_all add: check_config_unfold)
  from a b c show ?thesis by blast
qed

text \<open>An instance: a section whose \<open>aws_secret_key\<close> is \<open>None\<close> and that has no \<open>role_arn\<close>.\<close>

theorem check_config_exact_witness:
  "Config_init partial_section = Inr partial_config
   \<and> missing_required partial_section = [''aws_secret_key'']
   \<and> check_config partial_config = [''aws_secret_key'']"
proof -
  have c: "Config_init partial_section = Inr partial_config"
    by (simp add: Config_init_def Config_params_def Config_positional_def dict_get_def
        partial_section_def partial_config_def)
  have m: "missing_required partial_section = [''aws_secret_key'']"
    by (simp add: missing_required_def required_fields_def partial_section_def dict_get_def)
  from check_config_exact [of partial_config partial_section, THEN conjunct2, THEN conjunct1,
      rule_format, OF c]
  have "check_config partial_config = missing_required partial_section" .
  with c m show ?thesis by simp
qed

subsection \<open>C5\<close>



subsection \<open>C6\<close>

text \<open>
  Claim C6, as stated, fails for a mapping that populates the four required fields and
  has no \<open>refresh_token\<close> key: \<open>Config\<close> refuses it with \<open>TypeError\<close>, and
  construction neither builds nor validates a record.
\<close>

theorem explicit_no_record_counterexample:
  "truthy (dict_get no_refresh_creds ''lwa_app_id'')
   \<and> truthy (dict_get no_refresh_creds ''lwa_client_secret'')
   \<and> truthy (dict_get no_refresh_creds ''aws_access_key'')
   \<and> truthy (dict_get no_refresh_creds ''aws_secret_key'')
   \<and> CredentialProvider_init ''default'' (Some no_refresh_creds) quiet_world
       = (Inl TypeError, quiet_world)"
  by (simp add: no_refresh_creds_def dict_get_def CredentialProvider_init_def Config_init_def
      Config_params_def Config_positional_def)

text \<open>
  Claim C6, amended. For every explicit dictionary that binds the four required fields
  to non-empty values, construction leaves the process state as it was, so that nothing
  is logged: no source method runs, and neither the environment, the cache nor the secret
  store is accessed. When the dictionary also has the key \<open>refresh_token\<close> and no key
  that is no parameter of \<open>Config\<close>, construction builds the record from the dictionary
  itself, its validation reports nothing, and the object holding it is returned.
\<close>

theorem explicit_never_consults_sources:
  assumes "\<forall>k \<in> set required_fields. truthy (dict_get creds k)"
  shows "snd (CredentialProvider_init acct (Some creds) w) = w
    \<and> new_events w (snd (CredentialProvider_init acct (Some creds) w)) = []
    \<and> (set (map fst creds) \<subseteq> set Config_params \<and> ''refresh_token'' \<in> set (map fst creds) \<longrightarrow>
         (\<exists>c. Config_init creds = Inr c \<and> check_config c = []
            \<and> CredentialProvider_init acct (Some creds) w
                = (Inr \<lparr>account = acct, credentials = Some c\<rparr>, w)))"
proof -
  from assms have ne: "creds \<noteq> []"
    by (auto simp: required_fields_def dict_get_def)
  have chk: "check_config c = []" if "Config_init creds = Inr c" for c
    using assms Config_init_fields[OF that]
    by (simp add: check_config_unfold required_fields_def)
  have keys: "k \<in> set (map fst creds)" if "k \<in> set required_fields" for k
  proof -
    from assms that have "truthy (dict_get creds k)" by blast
    then have "map_of creds k \<noteq> None"
      by (cases "map_of creds k") (auto simp: dict_get_def)
    then show ?thesis
      by (metis map_of_eq_None_iff set_map)
  qed
  have a: "snd (CredentialProvider_init acct (Some creds) w) = w"
    using ne by (auto simp: init_explicit split: sum.splits)
  then have b: "new_events w (snd (CredentialProvider_init acct (Some creds) w)) = []"
    by (simp add: new_events_def)
  have c: "\<exists>c. Config_init creds = Inr c \<and> check_config c = []
            \<and> CredentialProvider_init acct (Some creds) w
                = (Inr \<lparr>account = acct, credentials = Some c\<rparr>, w)"
    if h: "set (map fst creds) \<subseteq> set Config_params \<and> ''refresh_token'' \<in> set (map fst creds)"
  proof -
    from h keys have "set Config_positional \<subseteq> set (map fst creds)"
      by (auto simp: Config_positional_def required_fields_def)
    with h Config_init_ok obtain c where c: "Config_init creds = Inr c" by blast
    with ne chk[OF c] show ?thesis by (simp add: init_explicit)
  qed
  from a b c show ?thesis by blast
qed

text \<open>An instance: the four required fields and a \<open>refresh_token\<close> that is \<open>None\<close>.\<close>

theorem explicit_never_consults_sources_witness:
  "CredentialProvider_init ''default''
       (Some [(''refresh_token'', PNone), (''lwa_app_id'', PStr ''i''),
              (''lwa_client_secret'', PStr ''s''), (''aws_access_key'', PStr ''k''),
              (''aws_secret_key'', PStr ''sk'')])
       quiet_world =
     (Inr \<lparr>account = ''default'',
           credentials = Some \<lparr>refresh_token = PNone, lwa_app_id = PStr ''i'',
             lwa_client_secret = PStr ''s'', aws_access_key = PStr ''k'',
             aws_secret_key = PStr ''sk'', role_arn = PNone\<rparr>\<rparr>, quiet_world)"
  using explicit_never_consults_sources [of
      "[(''refresh_token'', PNone), (''lwa_app_id'', PStr ''i''),
        (''lwa_client_secret'', PStr ''s''), (''aws_access_key'', PStr ''k''),
        (''aws_secret_key'', PStr ''sk'')]" "''default''" quiet_world]
  by (auto simp: required_fields_def dict_get_def Config_init_def Config_params_def
      Config_positional_def)

subsection \<open>C7\<close>

text \<open>
  Claim C7, as stated, fails for a remote-store access error that is no \<open>ClientError\<close>.
  With the identifier set and the endpoint unreachable, \<open>get_secret_value\<close> raises
  \<open>EndpointConnectionError\<close>; \<open>from_secrets\<close> does not catch it, and construction
  ends with it after \<open>from_env\<close> and \<open>from_secrets\<close>, without \<open>read_config\<close>, although
  the configuration file has a complete section for the account.
\<close>

theorem from_secrets_access_error_counterexample:
  "fst (from_secrets default_self offline_world)
     = Inl (BotoCoreError ''EndpointConnectionError'')
   \<and> fst (CredentialProvider_init ''default'' None offline_world)
     = Inl (BotoCoreError ''EndpointConnectionError'')
   \<and> filter is_call (trace (snd (CredentialProvider_init ''default'' None offline_world)))
     = [Call ''from_env'', Call ''from_secrets'']"
proof -
  have e: "environ offline_world ''SP_API_AWS_SECRET_ID'' = Some ''prod''"
    and ne: "''prod'' \<noteq> []"
    and c: "cache offline_world ''account_data'' = None"
    by (simp_all add: offline_world_def)
  have f: "from_secrets self (offline_world\<lparr>trace := evs\<rparr>) =
      (Inl (BotoCoreError ''EndpointConnectionError''), self,
       offline_world\<lparr>trace := evs @ fetch_prefix ''prod''\<rparr>)" for self evs
    by (simp add: from_secrets_raises [where sid = "''prod''"
          and e = "BotoCoreError ''EndpointConnectionError''"] offline_world_def)
  have "from_secrets default_self offline_world =
      (Inl (BotoCoreError ''EndpointConnectionError''), default_self,
       offline_world\<lparr>trace := [] @ fetch_prefix ''prod''\<rparr>)"
    by (simp add: from_secrets_raises [where sid = "''prod''"
          and e = "BotoCoreError ''EndpointConnectionError''"] offline_world_def)
  then have 1: "fst (from_secrets default_self offline_world)
     = Inl (BotoCoreError ''EndpointConnectionError'')"
    by simp
  have b: "check_config (env_config (environ offline_world) ''default'') \<noteq> []"
    by (simp add: check_config_unfold env_config_def env_value_def of_env_def offline_world_def)
  have i: "CredentialProvider_init ''default'' None offline_world =
      (Inl (BotoCoreError ''EndpointConnectionError''),
       offline_world\<lparr>trace := ([Call ''from_env'', CacheGet ''account_data'']
          @ env_reads ''default'') @ fetch_prefix ''prod''\<rparr>)"
    using b by (simp add: init_load from_env_miss [OF c] f) (simp add: offline_world_def)
  from 1 i show ?thesis by simp
qed

text \<open>
  Claim C7, amended. With \<open>SP_API_AWS_SECRET_ID\<close> unset or empty, \<open>from_secrets\<close>
  returns \<open>None\<close> without an exception and without calling the secret store. With the
  identifier set and \<open>get_secret_value\<close> raising \<open>ClientError\<close> (the error responses of
  the store, such as not found or access denied), it returns \<open>None\<close> as well. In both
  cases the loop of \<open>load_credentials\<close> goes on with the methods that follow. Any other
  exception that \<open>get_secret_value\<close> raises leaves \<open>from_secrets\<close> and the loop. The
  secret store is called only for an identifier that is set and non-empty.
\<close>

theorem from_secrets_skips:
  "(environ w ''SP_API_AWS_SECRET_ID'' = None \<or> environ w ''SP_API_AWS_SECRET_ID'' = Some [] \<longrightarrow>
      from_secrets self w =
        (Inr None, self,
         w\<lparr>trace := trace w @ [Call ''from_secrets'', EnvironGet ''SP_API_AWS_SECRET_ID'']\<rparr>)
      \<and> load_loop (from_secrets # rest) self w =
          load_loop rest self
            (w\<lparr>trace := trace w @ [Call ''from_secrets'', EnvironGet ''SP_API_AWS_SECRET_ID'']\<rparr>))
   \<and> (\<forall>sid. environ w ''SP_API_AWS_SECRET_ID'' = Some sid \<and> sid \<noteq> []
          \<and> boto3_client w = None \<and> secretsmanager w sid = Inl ClientError \<longrightarrow>
      from_secrets self w =
        (Inr None, self,
         w\<lparr>trace := trace w @ [Call ''from_secrets'', EnvironGet ''SP_API_AWS_SECRET_ID'',
              EnvironGet ''SP_API_AWS_SECRET_ID'', GetSecretValue sid]\<rparr>)
      \<and> load_loop (from_secrets # rest) self w =
          load_loop rest self
            (w\<lparr>trace := trace w @ [Call ''from_secrets'', EnvironGet ''SP_API_AWS_SECRET_ID'',
              EnvironGet ''SP_API_AWS_SECRET_ID'', GetSecretValue sid]\<rparr>))
   \<and> (\<forall>sid e. environ w ''SP_API_AWS_SECRET_ID'' = Some sid \<and> sid \<noteq> []
          \<and> boto3_client w = None \<and> secretsmanager w sid = Inl e \<and> e \<noteq> ClientError \<longrightarrow>
      load_loop (from_secrets # rest) self w =
        (Inl e, self,
         w\<lparr>trace := trace w @ [Call ''from_secrets'', EnvironGet ''SP_API_AWS_SECRET_ID'',
              EnvironGet ''SP_API_AWS_SECRET_ID'', GetSecretValue sid]\<rparr>))
   \<and> (\<forall>sid. GetSecretValue sid \<in> set (new_events w (snd (snd (from_secrets self w)))) \<longrightarrow>
          environ w ''SP_API_AWS_SECRET_ID'' = Some sid \<and> sid \<noteq> [])"
proof -
  have c: "environ w ''SP_API_AWS_SECRET_ID'' = Some sid \<and> sid \<noteq> []"
    if "GetSecretValue sid \<in> set (new_events w (snd (snd (from_secrets self w))))" for sid
  proof (cases w rule: from_secrets_cases)
    case unset
    with that show ?thesis by (auto simp: from_secrets_unset new_events_def)
  next
    case (failed sid' r evs)
    from that failed(5) have "sid = sid'"
      by (auto simp: failed(3) new_events_def fetch_prefix_def)
    with failed show ?thesis by simp
  next
    case (fetched sid' secret)
    with that show ?thesis
      by (auto simp: from_secrets_fetched new_events_def fetch_prefix_def set_and_check_snd)
  qed
  have a: "from_secrets self w =
        (Inr None, self,
         w\<lparr>trace := trace w @ [Call ''from_secrets'', EnvironGet ''SP_API_AWS_SECRET_ID'']\<rparr>)
      \<and> load_loop (from_secrets # rest) self w =
          load_loop rest self
            (w\<lparr>trace := trace w @ [Call ''from_secrets'', EnvironGet ''SP_API_AWS_SECRET_ID'']\<rparr>)"
    if "environ w ''SP_API_AWS_SECRET_ID'' = None \<or> environ w ''SP_API_AWS_SECRET_ID'' = Some []"
    by (simp add: from_secrets_unset[OF that])
  have b: "from_secrets self w =
        (Inr None, self,
         w\<lparr>trace := trace w @ [Call ''from_secrets'', EnvironGet ''SP_API_AWS_SECRET_ID'',
              EnvironGet ''SP_API_AWS_SECRET_ID'', GetSecretValue sid]\<rparr>)
      \<and> load_loop (from_secrets # rest) self w =
          load_loop rest self
            (w\<lparr>trace := trace w @ [Call ''from_secrets'', EnvironGet ''SP_API_AWS_SECRET_ID'',
              EnvironGet ''SP_API_AWS_SECRET_ID'', GetSecretValue sid]\<rparr>)"
    if "environ w ''SP_API_AWS_SECRET_ID'' = Some sid \<and> sid \<noteq> []
          \<and> boto3_client w = None \<and> secretsmanager w sid = Inl ClientError" for sid
    using that by (simp add: from_secrets_raises [where sid = sid and e = ClientError]
        fetch_prefix_def)
  have d: "load_loop (from_secrets # rest) self w =
        (Inl e, self,
         w\<lparr>trace := trace w @ [Call ''from_secrets'', EnvironGet ''SP_API_AWS_SECRET_ID'',
              EnvironGet ''SP_API_AWS_SECRET_ID'', GetSecretValue sid]\<rparr>)"
    if "environ w ''SP_API_AWS_SECRET_ID'' = Some sid \<and> sid \<noteq> []
          \<and> boto3_client w = None \<and> secretsmanager w sid = Inl e \<and> e \<noteq> ClientError" for sid e
    using that by (simp add: from_secrets_raises [where sid = sid and e = e] fetch_prefix_def)
  show ?thesis
    using a b c d by blast
qed

text \<open>
  An instance of the skip, of the swallowed \<open>ClientError\<close>, and of an exception that is
  not swallowed.
\<close>

theorem from_secrets_skips_witness:
  "from_secrets default_self quiet_world =
     (Inr None, default_self,
      quiet_world\<lparr>trace := [Call ''from_secrets'', EnvironGet ''SP_API_AWS_SECRET_ID'']\<rparr>)
   \<and> from_secrets default_self denied_world =
     (Inr None, default_self,
      denied_world\<lparr>trace := [Call ''from_secrets'', EnvironGet ''SP_API_AWS_SECRET_ID'',
         EnvironGet ''SP_API_AWS_SECRET_ID'', GetSecretValue ''prod'']\<rparr>)
   \<and> fst (load_loop [from_secrets, read_config] default_self offline_world)
     = Inl (BotoCoreError ''EndpointConnectionError'')"
proof -
  have q: "environ quiet_world ''SP_API_AWS_SECRET_ID'' = None" "trace quiet_world = []"
    by (simp_all add: quiet_world_def)
  have d: "environ denied_world ''SP_API_AWS_SECRET_ID'' = Some ''prod''"
    "boto3_client denied_world = None"
    "secretsmanager denied_world ''prod'' = Inl ClientError" "trace denied_world = []"
    by (simp_all add: denied_world_def)
  have o: "environ offline_world ''SP_API_AWS_SECRET_ID'' = Some ''prod''"
    "boto3_client offline_world = None"
    "secretsmanager offline_world ''prod'' = Inl (BotoCoreError ''EndpointConnectionError'')"
    by (simp_all add: offline_world_def)
  from from_secrets_skips [of quiet_world default_self "[]"] q
  have 1: "from_secrets default_self quiet_world =
     (Inr None, default_self,
      quiet_world\<lparr>trace := [Call ''from_secrets'', EnvironGet ''SP_API_AWS_SECRET_ID'']\<rparr>)"
    by simp
  from from_secrets_skips [of denied_world default_self "[]", THEN conjunct2, THEN conjunct1,
      rule_format, of "''prod''"] d
  have 2: "from_secrets default_self denied_world =
     (Inr None, default_self,
      denied_world\<lparr>trace := [Call ''from_secrets'', EnvironGet ''SP_API_AWS_SECRET_ID'',
         EnvironGet ''SP_API_AWS_SECRET_ID'', GetSecretValue ''prod'']\<rparr>)"
    by simp
  from from_secrets_skips [of offline_world default_self "[read_config]", THEN conjunct2,
      THEN conjunct2, THEN conjunct1, rule_format,
      of "''prod''" "BotoCoreError ''EndpointConnectionError''"] o
  have 3: "fst (load_loop [from_secrets, read_config] default_self offline_world)
     = Inl (BotoCoreError ''EndpointConnectionError'')"
    by simp
  from 1 2 3 show ?thesis by simp
qed

subsection \<open>C8\<close>

text \<open>
  Claim C8. \<open>_get_env\<close> returns the value of the variable suffixed with the account
  when that variable is set, and the value of the unsuffixed variable (\<open>None\<close> if unset)
  only when it is not. When the cache has no entry, each field of the record
  \<open>from_env\<close> builds is such a lookup; with \<open>LWA_APP_ID\<close> and
  \<open>LWA_APP_ID_myaccount\<close> both set, the record for account \<open>myaccount\<close> has the
  suffixed variable's value as \<open>lwa_app_id\<close>.
\<close>

theorem scoped_env_preferred:
  "(\<forall>s. environ w (key @ ''_'' @ account self) = Some s \<longrightarrow> fst (get_env self key w) = PStr s)
   \<and> (environ w (key @ ''_'' @ account self) = None \<longrightarrow>
        fst (get_env self key w) = of_env (environ w key))
   \<and> (cache w ''account_data'' = None \<longrightarrow>
        credentials (fst (snd (from_env self w))) =
          Some \<lparr>refresh_token = fst (get_env self ''SP_API_REFRESH_TOKEN'' w),
                lwa_app_id = fst (get_env self ''LWA_APP_ID'' w),
                lwa_client_secret = fst (get_env self ''LWA_CLIENT_SECRET'' w),
                aws_access_key = fst (get_env self ''SP_API_ACCESS_KEY'' w),
                aws_secret_key = fst (get_env self ''SP_API_SECRET_KEY'' w),
                role_arn = fst (get_env self ''SP_API_ROLE_ARN'' w)\<rparr>)
   \<and> (\<forall>s u. cache w ''account_data'' = None \<and> account self = ''myaccount''
         \<and> environ w ''LWA_APP_ID_myaccount'' = Some s \<and> environ w ''LWA_APP_ID'' = Some u \<longrightarrow>
        map_option lwa_app_id (credentials (fst (snd (from_env self w)))) = Some (PStr s))"
proof (intro conjI allI impI)
  fix s assume "environ w (key @ ''_'' @ account self) = Some s"
  then show "fst (get_env self key w) = PStr s"
    by (simp add: get_env_eq env_value_def)
next
  assume "environ w (key @ ''_'' @ account self) = None"
  then show "fst (get_env self key w) = of_env (environ w key)"
    by (simp add: get_env_eq env_value_def)
next
  assume "cache w ''account_data'' = None"
  then show "credentials (fst (snd (from_env self w))) =
          Some \<lparr>refresh_token = fst (get_env self ''SP_API_REFRESH_TOKEN'' w),
                lwa_app_id = fst (get_env self ''LWA_APP_ID'' w),
                lwa_client_secret = fst (get_env self ''LWA_CLIENT_SECRET'' w),
                aws_access_key = fst (get_env self ''SP_API_ACCESS_KEY'' w),
                aws_secret_key = fst (get_env self ''SP_API_SECRET_KEY'' w),
                role_arn = fst (get_env self ''SP_API_ROLE_ARN'' w)\<rparr>"
    by (simp add: from_env_miss get_env_eq env_config_def)
next
  fix s u
  assume h: "cache w ''account_data'' = None \<and> account self = ''myaccount''
         \<and> environ w ''LWA_APP_ID_myaccount'' = Some s \<and> environ w ''LWA_APP_ID'' = Some u"
  then have "env_value (environ w) (account self) ''LWA_APP_ID'' = PStr s"
    by (simp add: env_value_def)
  with h show "map_option lwa_app_id (credentials (fst (snd (from_env self w)))) = Some (PStr s)"
    by (simp add: from_env_miss env_config_def)
qed

text \<open>An instance: both variables set, to different values.\<close>

theorem scoped_env_preferred_witness:
  "fst (get_env \<lparr>account = ''myaccount'', credentials = None\<rparr> ''LWA_APP_ID'' scoped_world)
     = PStr ''scoped''
   \<and> map_option lwa_app_id
       (credentials (fst (snd (from_env \<lparr>account = ''myaccount'', credentials = None\<rparr>
          scoped_world)))) = Some (PStr ''scoped'')"
proof -
  have e: "environ scoped_world ''LWA_APP_ID_myaccount'' = Some ''scoped''"
    "environ scoped_world ''LWA_APP_ID'' = Some ''plain''"
    "cache scoped_world ''account_data'' = None"
    by (simp_all add: scoped_world_def)
  note t = scoped_env_preferred [of scoped_world "''LWA_APP_ID''"
      "\<lparr>account = ''myaccount'', credentials = None\<rparr>"]
  from t [THEN conjunct1, rule_format, of "''scoped''"] e
  have 1: "fst (get_env \<lparr>account = ''myaccount'', credentials = None\<rparr> ''LWA_APP_ID'' scoped_world)
     = PStr ''scoped''"
    by simp
  from t [THEN conjunct2, THEN conjunct2, THEN conjunct2, rule_format,
      of "''scoped''" "''plain''"] e
  have 2: "map_option lwa_app_id
       (credentials (fst (snd (from_env \<lparr>account = ''myaccount'', credentials = None\<rparr>
          scoped_world)))) = Some (PStr ''scoped'')"
    by simp
  from 1 2 show ?thesis by simp
qed

subsection \<open>C9\<close>

text \<open>
  Claim C9. Every cache access a construction logs has the key \<open>account_data\<close>, and
  a construction changes the cache under no other key. The key does not depend on the
  account: what \<open>from_secrets\<close> stored after a fetch while resolving an account \<open>a1\<close> is what
  \<open>from_env\<close> builds its record from for any account \<open>a2\<close>, in any state of the
  process with that cache entry.
\<close>

theorem cache_key_fixed:
  "list_all cache_key_ok (new_events w (snd (CredentialProvider_init acct creds w)))
   \<and> (\<forall>k. k \<noteq> ''account_data'' \<longrightarrow>
         cache (snd (CredentialProvider_init acct creds w)) k = cache w k)
   \<and> (\<forall>sid secret. environ w ''SP_API_AWS_SECRET_ID'' = Some sid \<and> sid \<noteq> []
          \<and> boto3_client w = None \<and> secretsmanager w sid = Inr (Object secret) \<longrightarrow>
        (\<forall>cr1 w2 a2 cr2.
           cache w2 ''account_data''
             = cache (snd (snd (from_secrets \<lparr>account = a1, credentials = cr1\<rparr> w))) ''account_data''
           \<longrightarrow> from_env \<lparr>account = a2, credentials = cr2\<rparr> w2 =
                 set_and_check (secret_account_data secret) \<lparr>account = a2, credentials = cr2\<rparr>
                   (w2\<lparr>trace := trace w2 @ [Call ''from_env'', CacheGet ''account_data'']\<rparr>)))"
proof (intro conjI allI impI)
  have ev: "evolves w (snd (CredentialProvider_init acct creds w))"
    by (rule init_evolves)
  then obtain evs where "trace (snd (CredentialProvider_init acct creds w)) = trace w @ evs"
    and "list_all cache_key_ok evs"
    unfolding evolves_def by blast
  then show "list_all cache_key_ok (new_events w (snd (CredentialProvider_init acct creds w)))"
    by (simp add: new_events_def)
  fix k :: string assume "k \<noteq> ''account_data''"
  with ev show "cache (snd (CredentialProvider_init acct creds w)) k = cache w k"
    unfolding evolves_def by blast
next
  fix sid secret cr1 a2 cr2 and w2 :: world
  assume h: "environ w ''SP_API_AWS_SECRET_ID'' = Some sid \<and> sid \<noteq> []
          \<and> boto3_client w = None \<and> secretsmanager w sid = Inr (Object secret)"
    and c: "cache w2 ''account_data''
             = cache (snd (snd (from_secrets \<lparr>account = a1, credentials = cr1\<rparr> w))) ''account_data''"
  from h have "cache (snd (snd (from_secrets \<lparr>account = a1, credentials = cr1\<rparr> w))) ''account_data''
      = Some (json_dumps (secret_account_data secret))"
    by (simp add: from_secrets_fetched [where sid = sid and secret = secret] set_and_check_snd)
  with c have "cache w2 ''account_data'' = Some (json_dumps (secret_account_data secret))"
    by simp
  then show "from_env \<lparr>account = a2, credentials = cr2\<rparr> w2 =
                 set_and_check (secret_account_data secret) \<lparr>account = a2, credentials = cr2\<rparr>
                   (w2\<lparr>trace := trace w2 @ [Call ''from_env'', CacheGet ''account_data'']\<rparr>)"
    by (simp add: from_env_hit json_dumps_def)
qed

text \<open>
  An instance: the payload cached for account \<open>default\<close> gives the record of account
  \<open>other\<close>.
\<close>

theorem cache_key_fixed_witness:
  "list_all cache_key_ok (new_events (secret_world full_secret)
      (snd (CredentialProvider_init ''default'' None (secret_world full_secret))))
   \<and> from_env \<lparr>account = ''other'', credentials = None\<rparr>
        (snd (snd (from_secrets default_self (secret_world full_secret))))
      = (Inr (Some True), \<lparr>account = ''other'', credentials = Some full_config\<rparr>,
         (snd (snd (from_secrets default_self (secret_world full_secret))))
           \<lparr>trace := trace (snd (snd (from_secrets default_self (secret_world full_secret))))
              @ [Call ''from_env'', CacheGet ''account_data'']\<rparr>)"
proof -
  let ?w = "secret_world full_secret"
  note t = cache_key_fixed [of ?w "''default''" None "''default''"]
  have h: "environ ?w ''SP_API_AWS_SECRET_ID'' = Some ''prod'' \<and> ''prod'' \<noteq> []
      \<and> boto3_client ?w = None \<and> secretsmanager ?w ''prod'' = Inr (Object full_secret)"
    by (simp add: secret_world_simps)
  from t [THEN conjunct2, THEN conjunct2, rule_format, OF h, of _ None "''other''" None, OF refl]
  have "from_env \<lparr>account = ''other'', credentials = None\<rparr>
        (snd (snd (from_secrets default_self ?w)))
      = set_and_check (secret_account_data full_secret) \<lparr>account = ''other'', credentials = None\<rparr>
         ((snd (snd (from_secrets default_self ?w)))
           \<lparr>trace := trace (snd (snd (from_secrets default_self ?w)))
              @ [Call ''from_env'', CacheGet ''account_data'']\<rparr>)"
    by (simp add: default_self_def)
  with t [THEN conjunct1] show ?thesis
    by (simp add: set_and_check_def full_secret_config sample_checks)
qed

subsection \<open>C10\<close>

text \<open>
  Claim C10. When the identifier is set, the client is created, the fetch returns and
  the secret string decodes to an object, \<open>from_secrets\<close> leaves
  the payload in the cache under \<open>account_data\<close> whatever validation says, and its
  result is whether validation reports nothing. In any state of the process with that
  cache entry, \<open>from_env\<close>, for any account, builds its record from the payload, returns
  the same validation result (\<open>False\<close> for an incomplete payload) and logs no read of
  the environment.
\<close>

theorem incomplete_payload_stays_cached:
  assumes "environ w ''SP_API_AWS_SECRET_ID'' = Some sid" and "sid \<noteq> []"
    and "boto3_client w = None" and "secretsmanager w sid = Inr (Object secret)"
    and "Config_init (secret_account_data secret) = Inr c"
  shows "cache (snd (snd (from_secrets self w))) ''account_data''
           = Some (json_dumps (secret_account_data secret))
     \<and> fst (from_secrets self w) = Inr (Some (check_config c = []))
     \<and> (\<forall>p w2. cache w2 ''account_data''
                   = cache (snd (snd (from_secrets self w))) ''account_data'' \<longrightarrow>
           from_env p w2 =
             (Inr (Some (check_config c = [])), p\<lparr>credentials := Some c\<rparr>,
              w2\<lparr>trace := trace w2 @ [Call ''from_env'', CacheGet ''account_data'']\<rparr>))"
proof -
  have a: "cache (snd (snd (from_secrets self w))) ''account_data''
           = Some (json_dumps (secret_account_data secret))"
    by (simp add: from_secrets_fetched [OF assms(1-4)] set_and_check_snd)
  have b: "fst (from_secrets self w) = Inr (Some (check_config c = []))"
    using assms(5) by (simp add: from_secrets_fetched [OF assms(1-4)] set_and_check_def)
  have c: "from_env p w2 =
             (Inr (Some (check_config c = [])), p\<lparr>credentials := Some c\<rparr>,
              w2\<lparr>trace := trace w2 @ [Call ''from_env'', CacheGet ''account_data'']\<rparr>)"
    if "cache w2 ''account_data''
                   = cache (snd (snd (from_secrets self w))) ''account_data''" for p w2
    using that a assms(5) by (simp add: from_env_cached)
  from a b c show ?thesis by blast
qed

text \<open>
  An instance: a secret without \<open>SP_API_SECRET_KEY\<close>; \<open>from_secrets\<close> returns
  \<open>False\<close>, and so does the \<open>from_env\<close> of a later resolver for another account.
\<close>

theorem incomplete_payload_stays_cached_witness:
  "cache (snd (snd (from_secrets default_self (secret_world partial_secret)))) ''account_data''
     = Some (json_dumps (secret_account_data partial_secret))
   \<and> fst (from_secrets default_self (secret_world partial_secret)) = Inr (Some False)
   \<and> from_env \<lparr>account = ''other'', credentials = None\<rparr>
        (snd (snd (from_secrets default_self (secret_world partial_secret))))
      = (Inr (Some False), \<lparr>account = ''other'', credentials = Some partial_config\<rparr>,
         (snd (snd (from_secrets default_self (secret_world partial_secret))))
           \<lparr>trace := trace (snd (snd (from_secrets default_self (secret_world partial_secret))))
              @ [Call ''from_env'', CacheGet ''account_data'']\<rparr>)"
proof -
  let ?w = "secret_world partial_secret"
  have ne: "''prod'' \<noteq> []" by simp
  note t = incomplete_payload_stays_cached [OF secret_world_simps(1) ne secret_world_simps(5)
      secret_world_simps(3) partial_secret_config, of default_self]
  from t [THEN conjunct2, THEN conjunct2, rule_format,
      of "snd (snd (from_secrets default_self ?w))" "\<lparr>account = ''other'', credentials = None\<rparr>",
      OF refl]
    t [THEN conjunct1] t [THEN conjunct2, THEN conjunct1]
  show ?thesis by (simp add: sample_checks)
qed

end
